theory Spec2Isabelle
  imports Main "HOL-Library.Word"
begin

unbundle bit_operations_syntax

section \<open>Exceptions\<close>

text \<open>
  Every exception the modelled Python code can raise is a value of this type. A function
  that may raise returns \<open>exn + 'a\<close>, with \<open>Inl\<close> for the raised exception.
\<close>

datatype exn =
    ValueError string
  | ValidationError
  | UnicodeEncodeError
  | TypeError
  | AttributeError
  | KeyError string
  | ResponseError
  | RequestError
  | HTTPStatusError
  | JSONDecodeError
  | OAuth2Exception string string
  | DecodeError
  | InvalidSignatureError
  | ExpiredSignatureError
  | ImmatureSignatureError
  | FastAPIAuthException string string
  | OtherException string

section \<open>Device authorization (backend/app/utils.py)\<close>

text \<open>
  Points in time (\<open>datetime\<close>) are whole seconds since the epoch. The Redis server and the
  application read the same clock, passed to every operation as \<open>now\<close>.
\<close>

type_synonym datetime = int

datatype device_status = Pending | Authorized

record DeviceAuthorizationData =
  device_code :: string
  client_id :: string
  created_at :: datetime
  expires_at :: datetime
  request_ip :: "string option"
  status :: device_status
  access_token :: "string option"

text \<open>
  A Redis value is either the JSON dump of a \<open>DeviceAuthorizationData\<close>
  (\<open>model_dump_json\<close>, read back by \<open>model_validate_json\<close>) or any other byte string.
  Every key written by this module carries an expiration (\<open>ex=\<close>), so an entry is a value
  with the time at which the server drops it.
\<close>

datatype redis_value = RecordJson DeviceAuthorizationData | Bytes string

type_synonym redis = "string \<rightharpoonup> (redis_value \<times> datetime)"

definition redis_get :: "redis \<Rightarrow> datetime \<Rightarrow> string \<Rightarrow> redis_value option" where
  "redis_get r now k =
     (case r k of
        None \<Rightarrow> None
      | Some (v, dies_at) \<Rightarrow> if now < dies_at then Some v else None)"

text \<open>\<open>SET key value EX seconds\<close>: the server refuses an expire time that is not positive.\<close>

definition redis_set :: "redis \<Rightarrow> datetime \<Rightarrow> string \<Rightarrow> redis_value \<Rightarrow> int \<Rightarrow> exn + redis" where
  "redis_set r now k v ex =
     (if ex \<le> 0 then Inl ResponseError else Inr (r(k \<mapsto> (v, now + ex))))"

text \<open>Python truthiness of a value read from Redis: empty bytes are falsy.\<close>

fun truthy :: "redis_value \<Rightarrow> bool" where
  "truthy (RecordJson _) = True"
| "truthy (Bytes s) = (s \<noteq> [])"

fun model_validate_json :: "redis_value \<Rightarrow> exn + DeviceAuthorizationData" where
  "model_validate_json (RecordJson d) = Inr d"
| "model_validate_json (Bytes _) = Inl ValidationError"

text \<open>
  \<open>create_and_store_device_code\<close>. The fresh \<open>uuid4\<close> is the argument \<open>new_uuid\<close>;
  \<open>ttl_minutes\<close> is \<open>settings.DEVICE_AUTH_TTL_MINUTES\<close>. The two \<open>SET\<close>s run in one
  transaction and carry the same expire time, so they are refused together or stored
  together.
\<close>

definition create_and_store_device_code ::
  "string \<Rightarrow> string \<Rightarrow> string option \<Rightarrow> redis \<Rightarrow> datetime \<Rightarrow> int \<Rightarrow> string \<Rightarrow> exn + (string \<times> redis)"
where
  "create_and_store_device_code user_code cid ip r now ttl_minutes new_uuid =
     (let data = \<lparr> device_code = new_uuid, client_id = cid, created_at = now,
                    expires_at = now + ttl_minutes * 60, request_ip = ip,
                    status = Pending, access_token = None \<rparr>
      in case redis_set r now (''auth:device:'' @ new_uuid) (RecordJson data) (ttl_minutes * 60) of
           Inl e \<Rightarrow> Inl e
         | Inr r1 \<Rightarrow>
             (case redis_set r1 now (''auth:user-code:'' @ user_code) (Bytes new_uuid) (ttl_minutes * 60) of
                Inl e \<Rightarrow> Inl e
              | Inr r2 \<Rightarrow> Inr (new_uuid, r2)))"

definition get_device_authorization_data ::
  "string \<Rightarrow> redis \<Rightarrow> datetime \<Rightarrow> exn + DeviceAuthorizationData option"
where
  "get_device_authorization_data dc r now =
     (case redis_get r now (''auth:device:'' @ dc) of
        None \<Rightarrow> Inr None
      | Some v \<Rightarrow>
          if truthy v
          then (case model_validate_json v of Inl e \<Rightarrow> Inl e | Inr d \<Rightarrow> Inr (Some d))
          else Inr None)"

definition authorize_device_code ::
  "string \<Rightarrow> string \<Rightarrow> redis \<Rightarrow> datetime \<Rightarrow> int \<Rightarrow> exn + redis"
where
  "authorize_device_code dc token r now ttl_minutes =
     (case get_device_authorization_data dc r now of
        Inl e \<Rightarrow> Inl e
      | Inr None \<Rightarrow> Inl (ValueError ''Device code not found'')
      | Inr (Some data) \<Rightarrow>
          redis_set r now (''auth:device:'' @ dc)
            (RecordJson (data\<lparr> status := Authorized, access_token := Some token \<rparr>))
            (ttl_minutes * 60))"

text \<open>A store holding one record that was authorized with the token \<open>tok-1\<close>.\<close>

definition authorized_once :: redis where
  "authorized_once =
     Map.empty(''auth:device:d1'' \<mapsto>
       (RecordJson \<lparr> device_code = ''d1'', client_id = ''cli'', created_at = 0,
                     expires_at = 300, request_ip = Some ''1.2.3.4'',
                     status = Authorized, access_token = Some ''tok-1'' \<rparr>, 310))"

section \<open>Signed tokens (backend/app/utils.py)\<close>

datatype TokenType = TT_user | TT_reset | TT_email | TT_update

fun TokenType_value :: "TokenType \<Rightarrow> string" where
  "TokenType_value TT_user = ''user''"
| "TokenType_value TT_reset = ''reset''"
| "TokenType_value TT_email = ''email''"
| "TokenType_value TT_update = ''update''"

text \<open>
  The JWT library (\<open>jwt.encode\<close>, \<open>jwt.decode\<close> with \<open>HS256\<close>). A token is a claim set with
  a signature, or a string that is no JWT at all. The keyed hash is the parameter
  \<open>hs256\<close>. Decoding checks the signature, then \<open>nbf\<close> and \<open>exp\<close> where the claim set has
  them; each failure is a subclass of \<open>InvalidTokenError\<close>.
\<close>

record jwt_payload =
  jwt_exp :: "datetime option"
  jwt_nbf :: "datetime option"
  jwt_sub :: "string option"
  jwt_old_email :: "string option"

datatype jwt = Signed jwt_payload string | NotAJwt string

type_synonym signer = "string \<Rightarrow> jwt_payload \<Rightarrow> string"

definition jwt_encode :: "signer \<Rightarrow> jwt_payload \<Rightarrow> string \<Rightarrow> jwt" where
  "jwt_encode hs256 payload key = Signed payload (hs256 key payload)"

fun jwt_decode :: "signer \<Rightarrow> jwt \<Rightarrow> string \<Rightarrow> datetime \<Rightarrow> exn + jwt_payload" where
  "jwt_decode hs256 (NotAJwt _) key now = Inl DecodeError"
| "jwt_decode hs256 (Signed p s) key now =
     (if s \<noteq> hs256 key p then Inl InvalidSignatureError
      else if (case jwt_nbf p of None \<Rightarrow> False | Some n \<Rightarrow> now < n) then Inl ImmatureSignatureError
      else if (case jwt_exp p of None \<Rightarrow> False | Some e \<Rightarrow> e \<le> now) then Inl ExpiredSignatureError
      else Inr p)"

fun is_InvalidTokenError :: "exn \<Rightarrow> bool" where
  "is_InvalidTokenError DecodeError = True"
| "is_InvalidTokenError InvalidSignatureError = True"
| "is_InvalidTokenError ExpiredSignatureError = True"
| "is_InvalidTokenError ImmatureSignatureError = True"
| "is_InvalidTokenError _ = False"

text \<open>\<open>s.split(sep, maxsplit=1)\<close> for a one-character separator.\<close>

definition split_maxsplit1 :: "char \<Rightarrow> string \<Rightarrow> string list" where
  "split_maxsplit1 sep s =
     (let a = takeWhile (\<lambda>c. c \<noteq> sep) s; b = dropWhile (\<lambda>c. c \<noteq> sep) s
      in if b = [] then [a] else [a, tl b])"

text \<open>
  The generators. \<open>secret_key\<close> is \<open>settings.SECRET_KEY\<close>, \<open>hours\<close> the setting
  \<open>EMAIL_RESET_TOKEN_EXPIRE_HOURS\<close> or \<open>EMAIL_VERIFICATION_TOKEN_EXPIRE_HOURS\<close>, \<open>now\<close> the
  value of \<open>get_datetime_utc()\<close>.
\<close>

definition generate_password_reset_token :: "signer \<Rightarrow> string \<Rightarrow> int \<Rightarrow> datetime \<Rightarrow> string \<Rightarrow> jwt" where
  "generate_password_reset_token hs256 secret_key hours now email =
     (let delta = hours * 3600; expires = now + delta; exp = expires
      in jwt_encode hs256
           \<lparr> jwt_exp = Some exp, jwt_nbf = Some now,
             jwt_sub = Some (TokenType_value TT_reset @ ''-'' @ email),
             jwt_old_email = None \<rparr>
           secret_key)"

definition generate_verification_email_token :: "signer \<Rightarrow> string \<Rightarrow> int \<Rightarrow> datetime \<Rightarrow> string \<Rightarrow> jwt" where
  "generate_verification_email_token hs256 secret_key hours now email =
     (let delta = hours * 3600; expires = now + delta; exp = expires
      in jwt_encode hs256
           \<lparr> jwt_exp = Some exp, jwt_nbf = Some now,
             jwt_sub = Some (TokenType_value TT_email @ ''-'' @ email),
             jwt_old_email = None \<rparr>
           secret_key)"

definition generate_verification_update_email_token ::
  "signer \<Rightarrow> string \<Rightarrow> int \<Rightarrow> datetime \<Rightarrow> string \<Rightarrow> string \<Rightarrow> jwt" where
  "generate_verification_update_email_token hs256 secret_key hours now email old_email =
     (let delta = hours * 3600; expires = now + delta; exp = expires
      in jwt_encode hs256
           \<lparr> jwt_exp = Some exp, jwt_nbf = Some now,
             jwt_sub = Some (TokenType_value TT_update @ ''-'' @ email),
             jwt_old_email = Some old_email \<rparr>
           secret_key)"

text \<open>
  The verifiers return \<open>Inr None\<close> for Python's \<open>None\<close>. Only \<open>InvalidTokenError\<close> is
  caught; a signed claim set without \<open>sub\<close> raises \<open>KeyError\<close>.
\<close>

definition verify_email_verification_token :: "signer \<Rightarrow> string \<Rightarrow> datetime \<Rightarrow> jwt \<Rightarrow> exn + string option" where
  "verify_email_verification_token hs256 secret_key now token =
     (case jwt_decode hs256 token secret_key now of
        Inl e \<Rightarrow> if is_InvalidTokenError e then Inr None else Inl e
      | Inr decoded_token \<Rightarrow>
          (case jwt_sub decoded_token of
             None \<Rightarrow> Inl (KeyError ''sub'')
           | Some sub \<Rightarrow>
               (let splitted_sub = split_maxsplit1 CHR ''-'' sub
                in if length splitted_sub = 2 \<and> splitted_sub ! 0 = TokenType_value TT_email
                   then Inr (Some (splitted_sub ! 1))
                   else Inr None)))"

definition verify_update_email_verification_token :: "signer \<Rightarrow> string \<Rightarrow> datetime \<Rightarrow> jwt \<Rightarrow> exn + (string \<times> string option) option" where
  "verify_update_email_verification_token hs256 secret_key now token =
     (case jwt_decode hs256 token secret_key now of
        Inl e \<Rightarrow> if is_InvalidTokenError e then Inr None else Inl e
      | Inr decoded_token \<Rightarrow>
          (case jwt_sub decoded_token of
             None \<Rightarrow> Inl (KeyError ''sub'')
           | Some sub \<Rightarrow>
               (let splitted_sub = split_maxsplit1 CHR ''-'' sub;
                    old_email = jwt_old_email decoded_token
                in if length splitted_sub = 2 \<and> splitted_sub ! 0 = TokenType_value TT_update
                   then Inr (Some (splitted_sub ! 1, old_email))
                   else Inr None)))"

definition verify_password_reset_token :: "signer \<Rightarrow> string \<Rightarrow> datetime \<Rightarrow> jwt \<Rightarrow> exn + string option" where
  "verify_password_reset_token hs256 secret_key now token =
     (case jwt_decode hs256 token secret_key now of
        Inl e \<Rightarrow> if is_InvalidTokenError e then Inr None else Inl e
      | Inr decoded_token \<Rightarrow>
          (case jwt_sub decoded_token of
             None \<Rightarrow> Inl (KeyError ''sub'')
           | Some sub \<Rightarrow>
               (let splitted_sub = split_maxsplit1 CHR ''-'' sub
                in if length splitted_sub = 2 \<and> splitted_sub ! 0 = TokenType_value TT_reset
                   then Inr (Some (splitted_sub ! 1))
                   else Inr None)))"

text \<open>A keyed hash to run the token functions on: the key followed by the subject.\<close>

definition example_hs256 :: signer where
  "example_hs256 key p = key @ ''/'' @ (case jwt_sub p of None \<Rightarrow> [] | Some s \<Rightarrow> s)"

section \<open>SHA-256 and URL-safe base64 (the library calls of \<open>_pkce.py\<close>)\<close>

text \<open>
  \<open>hashlib.sha256(m).digest()\<close>, following FIPS 180-4: padding to whole 64-byte blocks,
  the 64-word message schedule and 64 rounds per block, on 32-bit words (\<open>+\<close> wraps).
\<close>

type_synonym byte = "8 word"
type_synonym w32 = "32 word"

definition Ch :: "w32 \<Rightarrow> w32 \<Rightarrow> w32 \<Rightarrow> w32" where
  "Ch x y z = (x AND y) XOR (NOT x AND z)"

definition Maj :: "w32 \<Rightarrow> w32 \<Rightarrow> w32 \<Rightarrow> w32" where
  "Maj x y z = (x AND y) XOR (x AND z) XOR (y AND z)"

definition bsig0 :: "w32 \<Rightarrow> w32" where
  "bsig0 x = word_rotr 2 x XOR word_rotr 13 x XOR word_rotr 22 x"

definition bsig1 :: "w32 \<Rightarrow> w32" where
  "bsig1 x = word_rotr 6 x XOR word_rotr 11 x XOR word_rotr 25 x"

definition ssig0 :: "w32 \<Rightarrow> w32" where
  "ssig0 x = word_rotr 7 x XOR word_rotr 18 x XOR drop_bit 3 x"

definition ssig1 :: "w32 \<Rightarrow> w32" where
  "ssig1 x = word_rotr 17 x XOR word_rotr 19 x XOR drop_bit 10 x"

text \<open>
  The round constants and the initial hash value, as decimal numerals: the first 32 bits
  of the fractional parts of the cube roots of the first 64 primes, and of the square
  roots of the first 8 primes.
\<close>

definition K256 :: "w32 list" where
  "K256 =
     [1116352408, 1899447441, 3049323471, 3921009573, 961987163, 1508970993,
      2453635748, 2870763221, 3624381080, 310598401, 607225278, 1426881987,
      1925078388, 2162078206, 2614888103, 3248222580, 3835390401, 4022224774,
      264347078, 604807628, 770255983, 1249150122, 1555081692, 1996064986,
      2554220882, 2821834349, 2952996808, 3210313671, 3336571891, 3584528711,
      113926993, 338241895, 666307205, 773529912, 1294757372, 1396182291,
      1695183700, 1986661051, 2177026350, 2456956037, 2730485921, 2820302411,
      3259730800, 3345764771, 3516065817, 3600352804, 4094571909, 275423344,
      430227734, 506948616, 659060556, 883997877, 958139571, 1322822218,
      1537002063, 1747873779, 1955562222, 2024104815, 2227730452, 2361852424,
      2428436474, 2756734187, 3204031479, 3329325298]"

definition H256 :: "w32 list" where
  "H256 =
     [1779033703, 3144134277, 1013904242, 2773480762,
      1359893119, 2600822924, 528734635, 1541459225]"

definition length_bytes :: "64 word \<Rightarrow> byte list" where
  "length_bytes l = map (\<lambda>i. ucast (drop_bit (8 * (7 - i)) l)) [0..<8]"

definition pad :: "byte list \<Rightarrow> byte list" where
  "pad m = m @ [0x80] @ replicate ((119 - length m mod 64) mod 64) 0
             @ length_bytes (word_of_nat (8 * length m))"

fun be_words :: "byte list \<Rightarrow> w32 list" where
  "be_words (a # b # c # d # r) =
     (push_bit 24 (ucast a) OR push_bit 16 (ucast b) OR push_bit 8 (ucast c) OR ucast d)
       # be_words r"
| "be_words _ = []"

fun schedule :: "nat \<Rightarrow> w32 list \<Rightarrow> w32 list" where
  "schedule 0 w = w"
| "schedule (Suc n) w =
     schedule n (w @ [ssig1 (w ! (length w - 2)) + w ! (length w - 7)
                      + ssig0 (w ! (length w - 15)) + w ! (length w - 16)])"

fun sha_round :: "w32 list \<Rightarrow> (w32 \<times> w32) \<Rightarrow> w32 list" where
  "sha_round [a, b, c, d, e, f, g, h] (k, w) =
     (let t1 = h + bsig1 e + Ch e f g + k + w; t2 = bsig0 a + Maj a b c
      in [t1 + t2, a, b, c, d + t1, e, f, g])"
| "sha_round s _ = s"

definition compress :: "w32 list \<Rightarrow> byte list \<Rightarrow> w32 list" where
  "compress hs block =
     map2 (+) hs (foldl sha_round hs (zip K256 (schedule 48 (be_words block))))"

fun blocks :: "nat \<Rightarrow> byte list \<Rightarrow> w32 list \<Rightarrow> w32 list" where
  "blocks 0 m hs = hs"
| "blocks (Suc n) m hs = blocks n (drop 64 m) (compress hs (take 64 m))"

definition sha256 :: "byte list \<Rightarrow> byte list" where
  "sha256 m =
     (let p = pad m
      in concat (map (\<lambda>w. [ucast (drop_bit 24 w), ucast (drop_bit 16 w),
                            ucast (drop_bit 8 w), ucast w])
                   (blocks (length p div 64) p H256)))"

text \<open>
  \<open>base64.urlsafe_b64encode\<close>: three bytes give four characters of the URL-safe alphabet;
  a last group of one or two bytes is filled up with \<open>=\<close>.
\<close>

definition urlsafe_alphabet :: string where
  "urlsafe_alphabet = ''ABCDEFGHIJKLMNOPQRSTUVWXYZabcdefghijklmnopqrstuvwxyz0123456789-_''"

definition b64char :: "nat \<Rightarrow> char" where
  "b64char n = urlsafe_alphabet ! n"

fun urlsafe_b64encode :: "byte list \<Rightarrow> string" where
  "urlsafe_b64encode (a # b # c # r) =
     [b64char (unat a div 4), b64char ((unat a mod 4) * 16 + unat b div 16),
      b64char ((unat b mod 16) * 4 + unat c div 64), b64char (unat c mod 64)]
     @ urlsafe_b64encode r"
| "urlsafe_b64encode [a, b] =
     [b64char (unat a div 4), b64char ((unat a mod 4) * 16 + unat b div 16),
      b64char ((unat b mod 16) * 4), CHR ''='']"
| "urlsafe_b64encode [a] =
     [b64char (unat a div 4), b64char ((unat a mod 4) * 16), CHR ''='', CHR ''='']"
| "urlsafe_b64encode [] = []"

text \<open>\<open>s.rstrip(b"=")\<close>.\<close>

definition rstrip_eq :: "string \<Rightarrow> string" where
  "rstrip_eq s = rev (dropWhile (\<lambda>c. c = CHR ''='') (rev s))"

section \<open>PKCE (fastapi\_auth/utils/\_pkce.py)\<close>

text \<open>
  A Python \<open>str\<close> is its UTF-8 byte string, so a code point beyond ASCII shows as bytes
  from 128 up. \<open>s.encode("ascii")\<close> raises \<open>UnicodeEncodeError\<close> on such a string, and
  \<open>secrets.compare_digest\<close> raises \<open>TypeError\<close> when one of two \<open>str\<close> arguments
  has one.
\<close>

definition is_ascii :: "string \<Rightarrow> bool" where
  "is_ascii s = list_all (\<lambda>c. (of_char c :: nat) < 128) s"

definition encode_ascii :: "string \<Rightarrow> exn + byte list" where
  "encode_ascii s =
     (if is_ascii s then Inr (map (\<lambda>c. word_of_nat (of_char c)) s) else Inl UnicodeEncodeError)"

definition compare_digest :: "string \<Rightarrow> string \<Rightarrow> exn + bool" where
  "compare_digest a b = (if is_ascii a \<and> is_ascii b then Inr (a = b) else Inl TypeError)"

definition calculate_s256_challenge :: "string \<Rightarrow> exn + string" where
  "calculate_s256_challenge verifier =
     (case encode_ascii verifier of
        Inl e \<Rightarrow> Inl e
      | Inr bytes \<Rightarrow>
          (let sha256_digest = sha256 bytes;
               challenge = rstrip_eq (urlsafe_b64encode sha256_digest)
           in Inr challenge))"

definition validate_pkce :: "string \<Rightarrow> string \<Rightarrow> string \<Rightarrow> exn + bool" where
  "validate_pkce stored_challenge stored_method received_verifier =
     (if stored_method \<noteq> ''S256''
      then Inl (ValueError ''Unsupported code challenge method'')
      else (case calculate_s256_challenge received_verifier of
              Inl e \<Rightarrow> Inl e
            | Inr calculated_challenge \<Rightarrow>
                compare_digest calculated_challenge stored_challenge))"

text \<open>
  For the proofs only: the encoding without its padding, and a decoder of it.
\<close>

fun b64_nopad :: "byte list \<Rightarrow> string" where
  "b64_nopad (a # b # c # r) =
     [b64char (unat a div 4), b64char ((unat a mod 4) * 16 + unat b div 16),
      b64char ((unat b mod 16) * 4 + unat c div 64), b64char (unat c mod 64)]
     @ b64_nopad r"
| "b64_nopad [a, b] =
     [b64char (unat a div 4), b64char ((unat a mod 4) * 16 + unat b div 16),
      b64char ((unat b mod 16) * 4)]"
| "b64_nopad [a] = [b64char (unat a div 4), b64char ((unat a mod 4) * 16)]"
| "b64_nopad [] = []"

definition b64index :: "char \<Rightarrow> nat" where
  "b64index c = length (takeWhile (\<lambda>x. x \<noteq> c) urlsafe_alphabet)"

fun b64_decode :: "string \<Rightarrow> byte list" where
  "b64_decode (p # q # r # s # rest) =
     [word_of_nat (b64index p * 4 + b64index q div 16),
      word_of_nat ((b64index q mod 16) * 16 + b64index r div 4),
      word_of_nat ((b64index r mod 4) * 64 + b64index s)] @ b64_decode rest"
| "b64_decode [p, q, r] =
     [word_of_nat (b64index p * 4 + b64index q div 16),
      word_of_nat ((b64index q mod 16) * 16 + b64index r div 4)]"
| "b64_decode [p, q] = [word_of_nat (b64index p * 4 + b64index q div 16)]"
| "b64_decode _ = []"

section \<open>Storage interfaces (fastapi\_auth/\_storage.py)\<close>

text \<open>
  The \<open>SocialAccount\<close> and \<open>User\<close> protocols, with the fields of the dataclasses that
  implement them in \<open>tests/conftest.py\<close>. Identifiers are strings.
\<close>

record SocialAccount =
  sa_id :: string
  sa_user_id :: string
  sa_provider_user_id :: string
  sa_provider :: string
  sa_access_token :: "string option"
  sa_refresh_token :: "string option"
  sa_access_token_expires_at :: "datetime option"
  sa_refresh_token_expires_at :: "datetime option"
  sa_scope :: "string option"

record User =
  u_id :: string
  u_email :: string
  u_hashed_password :: string
  u_social_accounts :: "SocialAccount list"

text \<open>A \<open>dict\<close> with string keys and string values (a user-info or JSON object).\<close>

type_synonym str_dict = "string \<rightharpoonup> string"

text \<open>
  \<open>AccountsStorage\<close> is a protocol: the engine is written against its six methods and
  works with any implementation. An implementation is a record of operations on its own
  state \<open>'s\<close>; the lookups only read the state, the other three return the new state
  together with their result or the exception they raise.
\<close>

record 's AccountsStorage =
  find_user_by_email :: "'s \<Rightarrow> string \<Rightarrow> User option"
  find_user_by_id :: "'s \<Rightarrow> string \<Rightarrow> User option"
  find_social_account :: "'s \<Rightarrow> string \<Rightarrow> string \<Rightarrow> SocialAccount option"
  create_user :: "'s \<Rightarrow> str_dict \<Rightarrow> (exn + User) \<times> 's"
  create_social_account ::
    "'s \<Rightarrow> string \<Rightarrow> string \<Rightarrow> string \<Rightarrow> string option \<Rightarrow> string option \<Rightarrow>
     datetime option \<Rightarrow> datetime option \<Rightarrow> string option \<Rightarrow> str_dict \<Rightarrow>
     (exn + SocialAccount) \<times> 's"
  update_social_account ::
    "'s \<Rightarrow> string \<Rightarrow> string option \<Rightarrow> string option \<Rightarrow>
     datetime option \<Rightarrow> datetime option \<Rightarrow> string option \<Rightarrow> str_dict \<Rightarrow>
     (exn + SocialAccount) \<times> 's"

section \<open>The OAuth2 provider engine (fastapi\_auth/social\_providers/oauth.py)\<close>

record OAuth2AuthorizationRequestData =
  ar_redirect_uri :: string
  ar_login_hint :: "string option"
  ar_client_state :: "string option"
  ar_state :: string
  ar_code_challenge :: string
  ar_code_challenge_method :: string
  ar_link :: bool

record OAuth2LinkCodeData =
  lc_expires_at :: datetime
  lc_client_id :: string
  lc_redirect_uri :: string
  lc_code_challenge :: string
  lc_code_challenge_method :: string
  lc_provider_code :: string

text \<open>\<open>AuthorizationCodeGrantData\<close>, with the fields the engine constructs it from.\<close>

record AuthorizationCodeGrantData =
  cg_user_id :: string
  cg_expires_at :: datetime
  cg_client_id :: string
  cg_redirect_uri :: string
  cg_code_challenge :: string
  cg_code_challenge_method :: string

text \<open>
  A value of the secondary storage is a string: the JSON dump of one of the three models
  (\<open>model_dump_json\<close>), or any other string. \<open>model_validate_json\<close> of a model accepts the
  dumps of that model whose \<open>code_challenge_method\<close> is the literal \<open>S256\<close> and raises
  \<open>ValidationError\<close> on everything else; the three models differ in their required fields,
  so no dump of one validates as another.
\<close>

datatype stored =
    AuthorizationRequestJson OAuth2AuthorizationRequestData
  | LinkCodeJson OAuth2LinkCodeData
  | CodeGrantJson AuthorizationCodeGrantData
  | RawString string

fun stored_truthy :: "stored \<Rightarrow> bool" where
  "stored_truthy (RawString s) = (s \<noteq> [])"
| "stored_truthy _ = True"

fun validate_authorization_request :: "stored \<Rightarrow> exn + OAuth2AuthorizationRequestData" where
  "validate_authorization_request (AuthorizationRequestJson d) =
     (if ar_code_challenge_method d = ''S256'' then Inr d else Inl ValidationError)"
| "validate_authorization_request _ = Inl ValidationError"

fun validate_link_code :: "stored \<Rightarrow> exn + OAuth2LinkCodeData" where
  "validate_link_code (LinkCodeJson d) =
     (if lc_code_challenge_method d = ''S256'' then Inr d else Inl ValidationError)"
| "validate_link_code _ = Inl ValidationError"

text \<open>
  The \<open>Response\<close> class is used through its three factory methods and its constructor;
  a response is the call that built it. \<open>None\<close> stands for an argument left at its
  default (the tests show status 400 for \<open>Response.error\<close> without \<open>status_code\<close>).
\<close>

datatype Response =
    Response_error string "string option" "nat option"
  | Response_error_redirect string string string
  | Response_redirect string "(string \<times> string) list"
  | Response_plain nat string

text \<open>
  An HTTP request as the handlers read it: its URL, its query parameters, its headers and
  its body parsed by \<open>json.loads\<close> (\<open>None\<close> when the body is no JSON object).
\<close>

record Request =
  req_url :: string
  query_params :: str_dict
  req_headers :: str_dict
  req_json :: "str_dict option"

text \<open>
  The context of a call: the secondary storage (a dictionary, as \<open>MemoryStorage\<close>), the
  accounts storage with its current state, and the two capabilities
  \<open>get_user_from_request\<close> and \<open>is_valid_redirect_uri\<close>.
\<close>

record 's Context =
  secondary_storage :: "string \<rightharpoonup> stored"
  accounts_storage :: "'s AccountsStorage"
  accounts :: 's
  get_user_from_request :: "Request \<Rightarrow> User option"
  is_valid_redirect_uri :: "string \<Rightarrow> bool"

text \<open>The token endpoint's answer (\<open>models/oauth\_token\_response.py\<close>), by the fields read.\<close>

record TokenResponse =
  tr_access_token :: string
  tr_refresh_token :: "string option"
  tr_access_token_expires_at :: "datetime option"
  tr_refresh_token_expires_at :: "datetime option"
  tr_scope :: "string option"

datatype OAuth2TokenEndpointResponse = TokenOk TokenResponse | TokenErr string

record HttpResponse =
  status_code :: nat
  text_body :: string

text \<open>
  What lies outside the process: \<open>pydantic\<close>'s \<open>HttpUrl\<close> validation (the normalised URL,
  or \<open>None\<close> for \<open>ValidationError\<close>), \<open>httpx.post\<close> to the token endpoint, the parsing of
  its body, and \<open>httpx.get(...).json()\<close> on the user-info endpoint.
\<close>

record World =
  validate_http_url :: "string \<Rightarrow> string option"
  httpx_post :: "string \<Rightarrow> (string \<times> string) list \<Rightarrow> exn + HttpResponse"
  parse_token_json :: "string \<Rightarrow> OAuth2TokenEndpointResponse option"
  httpx_get_json :: "string \<Rightarrow> string \<Rightarrow> exn + str_dict"

record OAuth2Provider =
  provider_id :: string
  authorization_endpoint :: string
  token_endpoint :: string
  user_info_endpoint :: string
  scopes :: "string list"
  supports_pkce :: bool
  client_id_of :: string
  client_secret_of :: string

text \<open>Python's \<open>not x\<close> for an optional string: \<open>None\<close> and the empty string are falsy.\<close>

fun py_not :: "string option \<Rightarrow> bool" where
  "py_not None = True"
| "py_not (Some s) = (s = [])"

fun split_on :: "char \<Rightarrow> string \<Rightarrow> string list" where
  "split_on sep [] = [[]]"
| "split_on sep (c # cs) =
     (if c = sep then [] # split_on sep cs
      else (case split_on sep cs of [] \<Rightarrow> [[c]] | x # xs \<Rightarrow> (c # x) # xs))"

fun join :: "string \<Rightarrow> string list \<Rightarrow> string" where
  "join sep [] = []"
| "join sep [x] = x"
| "join sep (x # y # ys) = x @ sep @ join sep (y # ys)"

definition relative_url :: "string \<Rightarrow> string \<Rightarrow> string" where
  "relative_url url path =
     (let parts = split_on CHR ''/'' url;
          parts = butlast parts;
          parts = parts @ [path]
      in join ''/'' parts)"

definition build_authorization_params ::
  "OAuth2Provider \<Rightarrow> string \<Rightarrow> string \<Rightarrow> string \<Rightarrow> string \<Rightarrow> string \<Rightarrow> string option \<Rightarrow>
   (string \<times> string) list"
where
  "build_authorization_params self state proxy_redirect_uri response_type code_challenge
       code_challenge_method login_hint =
     [(''client_id'', client_id_of self),
      (''scope'', join '' '' (scopes self)),
      (''redirect_uri'', proxy_redirect_uri),
      (''state'', state),
      (''response_type'', response_type)]
     @ (if supports_pkce self
        then [(''code_challenge'', code_challenge),
              (''code_challenge_method'', code_challenge_method)]
        else [])
     @ (case login_hint of
          None \<Rightarrow> []
        | Some h \<Rightarrow> if h = [] then [] else [(''login_hint'', h)])"

text \<open>
  \<open>authorize\<close>. \<open>new_state\<close> is the value of \<open>secrets.token_hex(16)\<close>. The result is the
  response, or the exception that leaves the handler, with the context after the call.
\<close>

definition authorize ::
  "OAuth2Provider \<Rightarrow> World \<Rightarrow> string \<Rightarrow> Request \<Rightarrow> 's Context \<Rightarrow> (exn + Response) \<times> 's Context"
where
  "authorize self world new_state request context =
     (let redirect_uri = query_params request ''redirect_uri'' in
      if py_not redirect_uri
      then (Inr (Response_error ''invalid_request'' None None), context)
      else
        (case validate_http_url world (the redirect_uri) of
           None \<Rightarrow> (Inr (Response_error ''invalid_redirect_uri'' None None), context)
         | Some redirect_uri \<Rightarrow>
             if \<not> is_valid_redirect_uri context redirect_uri
             then (Inr (Response_error ''invalid_redirect_uri'' None None), context)
             else
               (let response_type = query_params request ''response_type'' in
                if py_not response_type
                then (Inr (Response_error_redirect redirect_uri ''invalid_request''
                             ''No response type provided''), context)
                else if the response_type \<notin> set [''code'', ''link_code'']
                then (Inr (Response_error_redirect redirect_uri ''invalid_request''
                             ''Unsupported response type''), context)
                else
                  (let code_challenge = query_params request ''code_challenge'';
                       code_challenge_method = query_params request ''code_challenge_method''
                   in
                   if py_not code_challenge
                   then (Inr (Response_error_redirect redirect_uri ''invalid_request''
                                ''No code challenge provided''), context)
                   else if code_challenge_method \<noteq> Some ''S256''
                   then (Inr (Response_error_redirect redirect_uri ''invalid_request''
                                ''Unsupported code challenge method''), context)
                   else
                     (let login_hint = query_params request ''login_hint'';
                          client_state = query_params request ''state'';
                          state = new_state;
                          data = \<lparr> ar_redirect_uri = redirect_uri,
                                   ar_login_hint = login_hint,
                                   ar_client_state = client_state,
                                   ar_state = state,
                                   ar_code_challenge = the code_challenge,
                                   ar_code_challenge_method = ''S256'',
                                   ar_link = (the response_type = ''link_code'') \<rparr>;
                          context' = context\<lparr> secondary_storage :=
                            (secondary_storage context)
                              (''oauth:authorization_request:'' @ state \<mapsto>
                                 AuthorizationRequestJson data) \<rparr>;
                          proxy_redirect_uri = relative_url (req_url request) ''callback'';
                          params = build_authorization_params self state proxy_redirect_uri
                                     ''code'' (the code_challenge) ''S256'' login_hint
                      in (Inr (Response_redirect (authorization_endpoint self) params),
                          context'))))))"

definition get_code_verifier :: "Request \<Rightarrow> 's Context \<Rightarrow> string option" where
  "get_code_verifier request context = None"

definition build_token_exchange_params ::
  "OAuth2Provider \<Rightarrow> string \<Rightarrow> string \<Rightarrow> string option \<Rightarrow> (string \<times> string) list"
where
  "build_token_exchange_params self code redirect_uri code_verifier =
     [(''grant_type'', ''authorization_code''),
      (''code'', code),
      (''redirect_uri'', redirect_uri),
      (''client_id'', client_id_of self),
      (''client_secret'', client_secret_of self)]
     @ (case code_verifier of
          None \<Rightarrow> []
        | Some v \<Rightarrow> if v = [] then [] else [(''code_verifier'', v)])"

text \<open>
  \<open>_exchange_code\<close>: \<open>raise_for_status\<close> raises \<open>HTTPStatusError\<close> on every status
  outside 200..299; that, \<open>RequestError\<close> and \<open>ValidationError\<close> are caught and give
  \<open>None\<close>, any other exception leaves the method.
\<close>

definition exchange_code ::
  "OAuth2Provider \<Rightarrow> World \<Rightarrow> string \<Rightarrow> string \<Rightarrow> Request \<Rightarrow> 's Context \<Rightarrow>
   exn + OAuth2TokenEndpointResponse option"
where
  "exchange_code self world code redirect_uri request context =
     (let code_verifier = get_code_verifier request context;
          params = build_token_exchange_params self code redirect_uri code_verifier
      in case httpx_post world (token_endpoint self) params of
           Inl e \<Rightarrow>
             if e = HTTPStatusError \<or> e = RequestError \<or> e = ValidationError
             then Inr None else Inl e
         | Inr response \<Rightarrow>
             if 200 \<le> status_code response \<and> status_code response \<le> 299
             then Inr (parse_token_json world (text_body response))
             else Inr None)"

text \<open>\<open>_fetch_user_info\<close>: every failure is raised as \<open>OAuth2Exception\<close>.\<close>

definition fetch_user_info ::
  "OAuth2Provider \<Rightarrow> World \<Rightarrow> Request \<Rightarrow> string \<Rightarrow> 's Context \<Rightarrow>
   exn + (str_dict \<times> TokenResponse)"
where
  "fetch_user_info self world request code context =
     (let proxy_redirect_uri = relative_url (req_url request) ''callback'' in
      case exchange_code self world code proxy_redirect_uri request context of
        Inl e \<Rightarrow> Inl e
      | Inr None \<Rightarrow> Inl (OAuth2Exception ''server_error'' ''Token exchange failed'')
      | Inr (Some (TokenErr _)) \<Rightarrow> Inl (OAuth2Exception ''server_error'' ''Token exchange failed'')
      | Inr (Some (TokenOk root)) \<Rightarrow>
          (case httpx_get_json world (user_info_endpoint self) (tr_access_token root) of
             Inl e \<Rightarrow> Inl (OAuth2Exception ''server_error'' ''Failed to fetch user info'')
           | Inr user_info \<Rightarrow>
               if py_not (user_info ''email'')
               then Inl (OAuth2Exception ''server_error'' ''No email found in user info'')
               else if py_not (user_info ''id'')
               then Inl (OAuth2Exception ''server_error''
                           ''No provider user ID found in user info'')
               else Inr (user_info, root)))"

text \<open>\<open>d[key]\<close> on a dictionary raises \<open>KeyError\<close> for a missing key.\<close>

definition getitem :: "str_dict \<Rightarrow> string \<Rightarrow> exn + string" where
  "getitem d k = (case d k of None \<Rightarrow> Inl (KeyError k) | Some v \<Rightarrow> Inr v)"

text \<open>
  \<open>_link_flow\<close>; \<open>new_code\<close> is the value of \<open>_generate_code()\<close>, \<open>now\<close> the current
  time.
\<close>

definition link_flow ::
  "OAuth2Provider \<Rightarrow> datetime \<Rightarrow> string \<Rightarrow> Request \<Rightarrow> 's Context \<Rightarrow>
   OAuth2AuthorizationRequestData \<Rightarrow> string \<Rightarrow> (exn + Response) \<times> 's Context"
where
  "link_flow self now new_code request context provider_data provider_code =
     (let data = \<lparr> lc_expires_at = now + 10 * 60,
                    lc_client_id = client_id_of self,
                    lc_redirect_uri = ar_redirect_uri provider_data,
                    lc_code_challenge = ar_code_challenge provider_data,
                    lc_code_challenge_method = ar_code_challenge_method provider_data,
                    lc_provider_code = provider_code \<rparr>;
          code = new_code;
          context' = context\<lparr> secondary_storage :=
            (secondary_storage context)(''oauth:link_request:'' @ code \<mapsto> LinkCodeJson data) \<rparr>
      in (Inr (Response_redirect (ar_redirect_uri provider_data) [(''link_code'', code)]),
          context'))"

text \<open>
  The end of \<open>callback\<close> (from \<open>code = self._generate_code()\<close> on), reached with the
  user that was found or created; \<open>user.id\<close> on \<open>None\<close> raises \<open>AttributeError\<close>.
\<close>

definition issue_code ::
  "OAuth2Provider \<Rightarrow> datetime \<Rightarrow> string \<Rightarrow> 's Context \<Rightarrow> OAuth2AuthorizationRequestData \<Rightarrow>
   User option \<Rightarrow> (exn + Response) \<times> 's Context"
where
  "issue_code self now new_code context provider_data user =
     (let redirect_uri = ar_redirect_uri provider_data;
          code = new_code
      in case user of
           None \<Rightarrow> (Inl AttributeError, context)
         | Some u \<Rightarrow>
             (let data = \<lparr> cg_user_id = u_id u,
                            cg_expires_at = now + 10 * 60,
                            cg_client_id = client_id_of self,
                            cg_redirect_uri = redirect_uri,
                            cg_code_challenge = ar_code_challenge provider_data,
                            cg_code_challenge_method = ar_code_challenge_method provider_data \<rparr>;
                  context' = context\<lparr> secondary_storage :=
                    (secondary_storage context)(''oauth:code:'' @ code \<mapsto> CodeGrantJson data) \<rparr>
              in (Inr (Response_redirect redirect_uri [(''code'', code)]), context')))"

definition callback ::
  "OAuth2Provider \<Rightarrow> World \<Rightarrow> datetime \<Rightarrow> string \<Rightarrow> Request \<Rightarrow> 's Context \<Rightarrow>
   (exn + Response) \<times> 's Context"
where
  "callback self world now new_code request context =
     (let state = query_params request ''state'' in
      if py_not state
      then (Inr (Response_error ''server_error'' (Some ''No state found in request'') None),
            context)
      else
        (let raw_provider_data =
               secondary_storage context (''oauth:authorization_request:'' @ the state)
         in
         if raw_provider_data = None \<or> \<not> stored_truthy (the raw_provider_data)
         then (Inr (Response_error ''server_error'' (Some ''Provider data not found'') None),
               context)
         else
           (case validate_authorization_request (the raw_provider_data) of
              Inl e \<Rightarrow>
                (Inr (Response_error ''server_error'' (Some ''Invalid provider data'') None),
                 context)
            | Inr provider_data \<Rightarrow>
                (let code = query_params request ''code'' in
                 if py_not code
                 then (Inr (Response_error_redirect (ar_redirect_uri provider_data)
                              ''server_error'' ''No authorization code received in callback''),
                       context)
                 else if ar_link provider_data
                 then link_flow self now new_code request context provider_data (the code)
                 else
                   (let redirect_uri = ar_redirect_uri provider_data in
                    case fetch_user_info self world request (the code) context of
                      Inl (OAuth2Exception error error_description) \<Rightarrow>
                        (Inr (Response_error_redirect redirect_uri error error_description),
                         context)
                    | Inl e \<Rightarrow> (Inl e, context)
                    | Inr (user_info, token_response) \<Rightarrow>
                        (case getitem user_info ''email'' of
                           Inl e \<Rightarrow> (Inl e, context)
                         | Inr email \<Rightarrow>
                        (case getitem user_info ''id'' of
                           Inl e \<Rightarrow> (Inl e, context)
                         | Inr provider_user_id \<Rightarrow>
                        (case find_social_account (accounts_storage context) (accounts context)
                                (provider_id self) provider_user_id of
                           Some social_account \<Rightarrow>
                             (case update_social_account (accounts_storage context)
                                     (accounts context) (sa_id social_account)
                                     (Some (tr_access_token token_response))
                                     (tr_refresh_token token_response)
                                     (tr_access_token_expires_at token_response)
                                     (tr_refresh_token_expires_at token_response)
                                     (tr_scope token_response) user_info of
                                (Inl e, accounts') \<Rightarrow>
                                  (Inl e, context\<lparr> accounts := accounts' \<rparr>)
                              | (Inr _, accounts') \<Rightarrow>
                                  (let user = find_user_by_id (accounts_storage context)
                                                accounts' (sa_user_id social_account)
                                   in issue_code self now new_code
                                        (context\<lparr> accounts := accounts' \<rparr>)
                                        provider_data user))
                         | None \<Rightarrow>
                             (case find_user_by_email (accounts_storage context)
                                     (accounts context) email of
                                Some user \<Rightarrow>
                                  (Inr (Response_error_redirect redirect_uri ''account_exists''
                                          ''An account with this email already exists.''),
                                   context)
                              | None \<Rightarrow>
                                  (case create_user (accounts_storage context)
                                          (accounts context) user_info of
                                     (Inl (FastAPIAuthException error error_description),
                                        accounts') \<Rightarrow>
                                       (Inr (Response_error_redirect redirect_uri error
                                               error_description),
                                        context\<lparr> accounts := accounts' \<rparr>)
                                   | (Inl e, accounts') \<Rightarrow>
                                       (Inl e, context\<lparr> accounts := accounts' \<rparr>)
                                   | (Inr user, accounts') \<Rightarrow>
                                       (case create_social_account (accounts_storage context)
                                               accounts' (u_id user) (provider_id self)
                                               provider_user_id
                                               (Some (tr_access_token token_response))
                                               (tr_refresh_token token_response)
                                               (tr_access_token_expires_at token_response)
                                               (tr_refresh_token_expires_at token_response)
                                               (tr_scope token_response) user_info of
                                          (Inl e, accounts'') \<Rightarrow>
                                            (Inl e, context\<lparr> accounts := accounts'' \<rparr>)
                                        | (Inr _, accounts'') \<Rightarrow>
                                            issue_code self now new_code
                                              (context\<lparr> accounts := accounts'' \<rparr>)
                                              provider_data (Some user))))))))))))"

definition finalize_link ::
  "OAuth2Provider \<Rightarrow> World \<Rightarrow> datetime \<Rightarrow> Request \<Rightarrow> 's Context \<Rightarrow>
   (exn + Response) \<times> 's Context"
where
  "finalize_link self world now request context =
     (case get_user_from_request context request of
        None \<Rightarrow>
          (Inr (Response_error ''unauthorized'' (Some ''Not logged in'') (Some 401)), context)
      | Some user \<Rightarrow>
     (case req_json request of
        None \<Rightarrow> (Inl JSONDecodeError, context)
      | Some request_data \<Rightarrow>
     (let code = request_data ''link_code'' in
      if py_not code
      then (Inr (Response_error ''server_error'' (Some ''No link code found in request'') None),
            context)
      else
     (let data = secondary_storage context (''oauth:link_request:'' @ the code) in
      if data = None \<or> \<not> stored_truthy (the data)
      then (Inr (Response_error ''server_error''
                   (Some ''No link data found in secondary storage'') None), context)
      else
     (case validate_link_code (the data) of
        Inl e \<Rightarrow>
          (Inr (Response_error ''server_error'' (Some ''Invalid link data'') None), context)
      | Inr link_data \<Rightarrow>
          if lc_expires_at link_data < now
          then (Inr (Response_error ''server_error'' (Some ''Link code has expired'') None),
                context)
          else if lc_code_challenge_method link_data \<noteq> ''S256''
          then (Inr (Response_error ''server_error''
                       (Some ''Unsupported code challenge method'') None), context)
          else
            (let code_verifier = request_data ''code_verifier'' in
             if py_not code_verifier
             then (Inr (Response_error ''server_error'' (Some ''No code_verifier provided'')
                          None), context)
             else
               (case validate_pkce (lc_code_challenge link_data)
                       (lc_code_challenge_method link_data) (the code_verifier) of
                  Inl e \<Rightarrow> (Inl e, context)
                | Inr False \<Rightarrow>
                    (Inr (Response_error ''server_error'' (Some ''Invalid code challenge'')
                            None), context)
                | Inr True \<Rightarrow>
                    (case fetch_user_info self world request (lc_provider_code link_data)
                            context of
                       Inl (OAuth2Exception error error_description) \<Rightarrow>
                         (Inr (Response_error error (Some error_description) None), context)
                     | Inl e \<Rightarrow> (Inl e, context)
                     | Inr (user_info, token_response) \<Rightarrow>
                         (case getitem user_info ''id'' of
                            Inl e \<Rightarrow> (Inl e, context)
                          | Inr provider_user_id \<Rightarrow>
                         (case find_social_account (accounts_storage context)
                                 (accounts context) (provider_id self) provider_user_id of
                            Some social_account \<Rightarrow>
                              if sa_user_id social_account \<noteq> u_id user
                              then (Inr (Response_error ''server_error''
                                           (Some ''Social account already exists'') None),
                                    context)
                              else
                                (case update_social_account (accounts_storage context)
                                        (accounts context) (sa_id social_account)
                                        (Some (tr_access_token token_response))
                                        (tr_refresh_token token_response)
                                        (tr_access_token_expires_at token_response)
                                        (tr_refresh_token_expires_at token_response)
                                        (tr_scope token_response) user_info of
                                   (Inl e, accounts') \<Rightarrow>
                                     (Inl e, context\<lparr> accounts := accounts' \<rparr>)
                                 | (Inr _, accounts') \<Rightarrow>
                                     (Inr (Response_plain 200
                                             ''{\"message\": \"Link finalized\"}''),
                                      context\<lparr> accounts := accounts' \<rparr>))
                          | None \<Rightarrow>
                              (case create_social_account (accounts_storage context)
                                      (accounts context) (u_id user) (provider_id self)
                                      provider_user_id
                                      (Some (tr_access_token token_response))
                                      (tr_refresh_token token_response)
                                      (tr_access_token_expires_at token_response)
                                      (tr_refresh_token_expires_at token_response)
                                      (tr_scope token_response) user_info of
                                 (Inl e, accounts') \<Rightarrow>
                                   (Inl e, context\<lparr> accounts := accounts' \<rparr>)
                               | (Inr _, accounts') \<Rightarrow>
                                   (Inr (Response_plain 200
                                           ''{\"message\": \"Link finalized\"}''),
                                    context\<lparr> accounts := accounts' \<rparr>))))))))))))"

section \<open>The in-memory storages (fastapi\_auth/tests/conftest.py)\<close>

text \<open>
  \<open>MemoryAccountsStorage\<close> keeps a dictionary from user id to \<open>User\<close>; a Python \<open>dict\<close>
  keeps insertion order, and assigning to a key that is present keeps its place. The
  state also counts the \<open>uuid4\<close> values drawn so far; \<open>uuid4\<close> itself and the password
  hash are parameters.
\<close>

fun dict_set :: "'k \<Rightarrow> 'v \<Rightarrow> ('k \<times> 'v) list \<Rightarrow> ('k \<times> 'v) list" where
  "dict_set k v [] = [(k, v)]"
| "dict_set k v ((k', v') # d) = (if k' = k then (k, v) # d else (k', v') # dict_set k v d)"

record MemoryAccounts =
  ms_data :: "(string \<times> User) list"
  ms_uuids_drawn :: nat

definition all_social_accounts :: "MemoryAccounts \<Rightarrow> SocialAccount list" where
  "all_social_accounts self = concat (map (\<lambda>(k, user). u_social_accounts user) (ms_data self))"

definition mem_find_user_by_email :: "MemoryAccounts \<Rightarrow> string \<Rightarrow> User option" where
  "mem_find_user_by_email self email =
     find (\<lambda>user. u_email user = email) (map snd (ms_data self))"

definition mem_find_user_by_id :: "MemoryAccounts \<Rightarrow> string \<Rightarrow> User option" where
  "mem_find_user_by_id self uid = map_of (ms_data self) uid"

definition mem_create_user ::
  "(string \<Rightarrow> string) \<Rightarrow> MemoryAccounts \<Rightarrow> str_dict \<Rightarrow> (exn + User) \<times> MemoryAccounts"
where
  "mem_create_user pwd_hash self user_info =
     (case getitem user_info ''email'' of
        Inl e \<Rightarrow> (Inl e, self)
      | Inr email \<Rightarrow>
          if mem_find_user_by_email self email \<noteq> None
          then (Inl (ValueError ''User already exists''), self)
          else if email = ''not-allowed@example.com''
          then (Inl (FastAPIAuthException ''email_not_invited''
                       ''This email has not yet been invited to join FastAPI Cloud''), self)
          else
            (case getitem user_info ''id'' of
               Inl e \<Rightarrow> (Inl e, self)
             | Inr uid \<Rightarrow>
                 (let user = \<lparr> u_id = uid, u_email = email,
                                u_hashed_password =
                                  pwd_hash (case user_info ''password'' of
                                              None \<Rightarrow> [] | Some pw \<Rightarrow> pw),
                                u_social_accounts = [] \<rparr>
                  in (Inr user, self\<lparr> ms_data := dict_set uid user (ms_data self) \<rparr>))))"

definition mem_find_social_account ::
  "MemoryAccounts \<Rightarrow> string \<Rightarrow> string \<Rightarrow> SocialAccount option"
where
  "mem_find_social_account self provider provider_user_id =
     find (\<lambda>social_account. sa_provider social_account = provider \<and>
                             sa_provider_user_id social_account = provider_user_id)
       (all_social_accounts self)"

definition mem_create_social_account ::
  "(nat \<Rightarrow> string) \<Rightarrow> MemoryAccounts \<Rightarrow> string \<Rightarrow> string \<Rightarrow> string \<Rightarrow> string option \<Rightarrow>
   string option \<Rightarrow> datetime option \<Rightarrow> datetime option \<Rightarrow> string option \<Rightarrow> str_dict \<Rightarrow>
   (exn + SocialAccount) \<times> MemoryAccounts"
where
  "mem_create_social_account uuid4 self user_id provider provider_user_id acc_token
       refresh_token access_token_expires_at refresh_token_expires_at scope user_info =
     (case map_of (ms_data self) user_id of
        None \<Rightarrow> (Inl (ValueError ''User does not exist''), self)
      | Some user \<Rightarrow>
          (let social_account =
                 \<lparr> sa_id = uuid4 (ms_uuids_drawn self),
                   sa_user_id = user_id,
                   sa_provider_user_id = provider_user_id,
                   sa_provider = provider,
                   sa_access_token = acc_token,
                   sa_refresh_token = refresh_token,
                   sa_access_token_expires_at = access_token_expires_at,
                   sa_refresh_token_expires_at = refresh_token_expires_at,
                   sa_scope = scope \<rparr>;
               user' = user\<lparr> u_social_accounts := u_social_accounts user @ [social_account] \<rparr>
           in (Inr social_account,
               self\<lparr> ms_data := dict_set user_id user' (ms_data self),
                     ms_uuids_drawn := Suc (ms_uuids_drawn self) \<rparr>)))"

text \<open>
  \<open>update_social_account\<close> changes, in place, the first social account with the given
  id, in the order of the users and of their accounts.
\<close>

fun update_first :: "('a \<Rightarrow> bool) \<Rightarrow> ('a \<Rightarrow> 'a) \<Rightarrow> 'a list \<Rightarrow> 'a list" where
  "update_first P f [] = []"
| "update_first P f (x # xs) = (if P x then f x # xs else x # update_first P f xs)"

fun update_first_account ::
  "(SocialAccount \<Rightarrow> bool) \<Rightarrow> (SocialAccount \<Rightarrow> SocialAccount) \<Rightarrow> (string \<times> User) list \<Rightarrow>
   (string \<times> User) list"
where
  "update_first_account P f [] = []"
| "update_first_account P f ((k, user) # d) =
     (if list_ex P (u_social_accounts user)
      then (k, user\<lparr> u_social_accounts := update_first P f (u_social_accounts user) \<rparr>) # d
      else (k, user) # update_first_account P f d)"

definition mem_update_social_account ::
  "MemoryAccounts \<Rightarrow> string \<Rightarrow> string option \<Rightarrow> string option \<Rightarrow> datetime option \<Rightarrow>
   datetime option \<Rightarrow> string option \<Rightarrow> str_dict \<Rightarrow> (exn + SocialAccount) \<times> MemoryAccounts"
where
  "mem_update_social_account self social_account_id acc_token refresh_token
       access_token_expires_at refresh_token_expires_at scope user_info =
     (let set_tokens = (\<lambda>social_account.
            social_account\<lparr> sa_access_token := acc_token,
                             sa_refresh_token := refresh_token,
                             sa_access_token_expires_at := access_token_expires_at,
                             sa_refresh_token_expires_at := refresh_token_expires_at,
                             sa_scope := scope \<rparr>)
      in case find (\<lambda>social_account. sa_id social_account = social_account_id)
                (all_social_accounts self) of
           None \<Rightarrow> (Inl (ValueError ''Social account does not exist''), self)
         | Some social_account \<Rightarrow>
             (Inr (set_tokens social_account),
              self\<lparr> ms_data :=
                update_first_account (\<lambda>social_account. sa_id social_account = social_account_id)
                  set_tokens (ms_data self) \<rparr>))"

definition MemoryAccountsStorage ::
  "(string \<Rightarrow> string) \<Rightarrow> (nat \<Rightarrow> string) \<Rightarrow> MemoryAccounts AccountsStorage"
where
  "MemoryAccountsStorage pwd_hash uuid4 =
     \<lparr> find_user_by_email = mem_find_user_by_email,
       find_user_by_id = mem_find_user_by_id,
       find_social_account = mem_find_social_account,
       create_user = mem_create_user pwd_hash,
       create_social_account = mem_create_social_account uuid4,
       update_social_account = mem_update_social_account \<rparr>"

section \<open>A provider, a world and a context to run the engine on\<close>

text \<open>
  The context of \<open>conftest.py\<close>: one user \<open>test\<close> with the email \<open>test@example.com\<close>, who
  is the caller of every request with the header \<open>Authorization: Bearer test\<close>. The
  upstream provider knows the code \<open>1234567890\<close> and answers it with the identity
  \<open>id = pid-1\<close>, \<open>email = new@example.com\<close>.
\<close>

definition test_user :: User where
  "test_user = \<lparr> u_id = ''test'', u_email = ''test@example.com'',
                  u_hashed_password = ''#password123'', u_social_accounts = [] \<rparr>"

definition test_accounts :: MemoryAccounts where
  "test_accounts = \<lparr> ms_data = [(''test'', test_user)], ms_uuids_drawn = 0 \<rparr>"

definition test_uuid4 :: "nat \<Rightarrow> string" where
  "test_uuid4 n = ''uuid-'' @ replicate n CHR ''i''"

definition test_context :: "MemoryAccounts Context" where
  "test_context =
     \<lparr> secondary_storage = Map.empty,
       accounts_storage = MemoryAccountsStorage (\<lambda>pw. CHR ''#'' # pw) test_uuid4,
       accounts = test_accounts,
       get_user_from_request =
         (\<lambda>request. if req_headers request ''Authorization'' = Some ''Bearer test''
                     then Some test_user else None),
       is_valid_redirect_uri = (\<lambda>uri. uri = ''http://valid-frontend.com/callback'') \<rparr>"

definition test_provider :: OAuth2Provider where
  "test_provider =
     \<lparr> provider_id = ''test'',
       authorization_endpoint = ''https://idp.example.com/authorize'',
       token_endpoint = ''https://idp.example.com/token'',
       user_info_endpoint = ''https://idp.example.com/userinfo'',
       scopes = [''openid'', ''email'', ''profile''],
       supports_pkce = True,
       client_id_of = ''test_client_id'',
       client_secret_of = ''test_client_secret'' \<rparr>"

definition test_token :: TokenResponse where
  "test_token = \<lparr> tr_access_token = ''at-1'', tr_refresh_token = None,
                   tr_access_token_expires_at = None, tr_refresh_token_expires_at = None,
                   tr_scope = Some ''openid email profile'' \<rparr>"

definition test_world :: "string \<Rightarrow> World" where
  "test_world upstream_email =
     \<lparr> validate_http_url =
         (\<lambda>s. if take 7 s = ''http://'' \<or> take 8 s = ''https://'' then Some s else None),
       httpx_post =
         (\<lambda>url params. if map_of params ''code'' = Some ''1234567890''
                        then Inr \<lparr> status_code = 200, text_body = ''token-json'' \<rparr>
                        else Inr \<lparr> status_code = 400, text_body = ''invalid_grant'' \<rparr>),
       parse_token_json = (\<lambda>s. if s = ''token-json'' then Some (TokenOk test_token) else None),
       httpx_get_json =
         (\<lambda>url token. Inr (Map.empty(''id'' \<mapsto> ''pid-1'', ''email'' \<mapsto> upstream_email))) \<rparr>"

definition get_request :: "string \<Rightarrow> (string \<times> string) list \<Rightarrow> Request" where
  "get_request url params =
     \<lparr> req_url = url, query_params = map_of params, req_headers = Map.empty, req_json = None \<rparr>"

definition post_request :: "string \<Rightarrow> (string \<times> string) list \<Rightarrow> (string \<times> string) list \<Rightarrow> Request" where
  "post_request url headers body =
     \<lparr> req_url = url, query_params = Map.empty, req_headers = map_of headers,
       req_json = Some (map_of body) \<rparr>"

text \<open>
  A context in which \<open>authorize\<close> has stored a request under the state \<open>st-1\<close> (and a
  string that is no request under \<open>st-bad\<close>), and the provider's redirect back to the
  callback.
\<close>

definition stored_request :: OAuth2AuthorizationRequestData where
  "stored_request =
     \<lparr> ar_redirect_uri = ''http://valid-frontend.com/callback'', ar_login_hint = None,
       ar_client_state = Some ''test_state'', ar_state = ''st-1'',
       ar_code_challenge = ''n4bQgYhMfWWaL-qgxVrQFaO_TxsrC4Is0V1sFbDwCgg'',
       ar_code_challenge_method = ''S256'', ar_link = False \<rparr>"

definition callback_context :: "MemoryAccounts Context" where
  "callback_context =
     test_context\<lparr> secondary_storage :=
       Map.empty(''oauth:authorization_request:st-1'' \<mapsto> AuthorizationRequestJson stored_request,
                 ''oauth:authorization_request:st-bad'' \<mapsto> RawString ''{}'') \<rparr>"

definition callback_request :: "(string \<times> string) list \<Rightarrow> Request" where
  "callback_request params = get_request ''http://localhost:8000/test/callback'' params"

text \<open>
  Accounts in which the social account of the upstream identity \<open>pid-1\<close> names an owner
  \<open>ghost\<close> that is no user.
\<close>

definition dangling_account :: SocialAccount where
  "dangling_account =
     \<lparr> sa_id = ''sa-1'', sa_user_id = ''ghost'', sa_provider_user_id = ''pid-1'',
       sa_provider = ''test'', sa_access_token = None, sa_refresh_token = None,
       sa_access_token_expires_at = None, sa_refresh_token_expires_at = None,
       sa_scope = None \<rparr>"

definition dangling_context :: "MemoryAccounts Context" where
  "dangling_context =
     callback_context\<lparr> accounts :=
       \<lparr> ms_data = [(''test'', test_user\<lparr> u_social_accounts := [dangling_account] \<rparr>)],
         ms_uuids_drawn = 1 \<rparr> \<rparr>"

text \<open>
  A context in which the link flow has stored a link code \<open>test\<close> for the verifier
  \<open>test\<close> and the provider code \<open>1234567890\<close>, and the request of the logged-in user
  \<open>test\<close> that redeems it. In \<open>conflict_context\<close> the upstream identity \<open>pid-1\<close> is
  already linked to another user.
\<close>

definition stored_link_code :: OAuth2LinkCodeData where
  "stored_link_code =
     \<lparr> lc_expires_at = 1010, lc_client_id = ''test'', lc_redirect_uri = ''test'',
       lc_code_challenge = ''n4bQgYhMfWWaL-qgxVrQFaO_TxsrC4Is0V1sFbDwCgg'',
       lc_code_challenge_method = ''S256'', lc_provider_code = ''1234567890'' \<rparr>"

definition link_context :: "MemoryAccounts Context" where
  "link_context =
     test_context\<lparr> secondary_storage :=
       Map.empty(''oauth:link_request:test'' \<mapsto> LinkCodeJson stored_link_code) \<rparr>"

definition link_request :: Request where
  "link_request =
     post_request ''http://localhost:8000/test/finalize-link''
       [(''Authorization'', ''Bearer test'')]
       [(''link_code'', ''test''), (''code_verifier'', ''test'')]"

definition other_user :: User where
  "other_user =
     \<lparr> u_id = ''other'', u_email = ''other@example.com'', u_hashed_password = ''#pw'',
       u_social_accounts =
         [\<lparr> sa_id = ''sa-1'', sa_user_id = ''other'', sa_provider_user_id = ''pid-1'',
            sa_provider = ''test'', sa_access_token = None, sa_refresh_token = None,
            sa_access_token_expires_at = None, sa_refresh_token_expires_at = None,
            sa_scope = None \<rparr>] \<rparr>"

definition conflict_context :: "MemoryAccounts Context" where
  "conflict_context =
     link_context\<lparr> accounts :=
       \<lparr> ms_data = [(''test'', test_user), (''other'', other_user)], ms_uuids_drawn = 1 \<rparr> \<rparr>"

text \<open>What identifies a social account and its owner, apart from the token fields.\<close>

definition identity_of :: "SocialAccount \<Rightarrow> string \<times> string \<times> string \<times> string" where
  "identity_of social_account =
     (sa_id social_account, sa_user_id social_account, sa_provider social_account,
      sa_provider_user_id social_account)"

text \<open>The accounts after the user \<open>test\<close> has linked the upstream identity \<open>pid-1\<close>.\<close>

definition linked_accounts :: MemoryAccounts where
  "linked_accounts =
     \<lparr> ms_data =
         [(''test'', test_user\<lparr> u_social_accounts :=
            [\<lparr> sa_id = ''uuid-'', sa_user_id = ''test'', sa_provider_user_id = ''pid-1'',
               sa_provider = ''test'', sa_access_token = Some ''at-1'',
               sa_refresh_token = None, sa_access_token_expires_at = None,
               sa_refresh_token_expires_at = None,
               sa_scope = Some ''openid email profile'' \<rparr>] \<rparr>)],
       ms_uuids_drawn = 1 \<rparr>"

section \<open>Device authorization: theorems\<close>

lemma get_after_set:
  "0 < ex \<Longrightarrow> now \<le> t \<Longrightarrow> t < now + ex \<Longrightarrow>
   redis_set r now (''auth:device:'' @ dc) (RecordJson d) ex = Inr r' \<Longrightarrow>
   get_device_authorization_data dc r' t = Inr (Some d)"
  by (auto simp: redis_set_def get_device_authorization_data_def redis_get_def)

text \<open>
  C1 (as stated, refuted): a second \<open>authorize_device_code\<close> on a record that is already
  authorized with \<open>tok-1\<close> does not fail; it returns normally and the record then carries
  the second token \<open>tok-2\<close>.
\<close>

theorem authorize_twice_counterexample:
  "get_device_authorization_data ''d1'' authorized_once 20 =
     Inr (Some \<lparr> device_code = ''d1'', client_id = ''cli'', created_at = 0,
                    expires_at = 300, request_ip = Some ''1.2.3.4'',
                    status = Authorized, access_token = Some ''tok-1'' \<rparr>) \<and>
   \<not> isl (authorize_device_code ''d1'' ''tok-2'' authorized_once 20 5) \<and>
   get_device_authorization_data ''d1''
       (projr (authorize_device_code ''d1'' ''tok-2'' authorized_once 20 5)) 20 =
     Inr (Some \<lparr> device_code = ''d1'', client_id = ''cli'', created_at = 0,
                    expires_at = 300, request_ip = Some ''1.2.3.4'',
                    status = Authorized, access_token = Some ''tok-2'' \<rparr>)"
  by (simp add: authorized_once_def authorize_device_code_def
      get_device_authorization_data_def redis_get_def redis_set_def)

text \<open>
  C1 (amended): \<open>authorize_device_code\<close> fails, with \<open>ValueError\<close>, when the store holds no
  live record for the device code. On a live record, whatever its status (so also one that
  is already authorized), it succeeds for a positive TTL, and the record read back has
  status \<open>authorized\<close> and the access token of this call, every other field unchanged.
\<close>

theorem authorize_device_code_overwrites:
  "(get_device_authorization_data dc r now = Inr None \<longrightarrow>
      authorize_device_code dc tok r now ttl = Inl (ValueError ''Device code not found'')) \<and>
   (get_device_authorization_data dc r now = Inr (Some d) \<and> 0 < ttl \<longrightarrow>
      (\<exists>r'. authorize_device_code dc tok r now ttl = Inr r' \<and>
            get_device_authorization_data dc r' now =
              Inr (Some (d\<lparr> status := Authorized, access_token := Some tok \<rparr>))))"
  by (auto simp: authorize_device_code_def redis_set_def
      get_device_authorization_data_def redis_get_def)

theorem authorize_device_code_overwrites_witness:
  "get_device_authorization_data ''d1'' Map.empty 20 = Inr None \<and>
   authorize_device_code ''d1'' ''tok-2'' Map.empty 20 5 =
     Inl (ValueError ''Device code not found'') \<and>
   get_device_authorization_data ''d1'' authorized_once 20 =
     Inr (Some \<lparr> device_code = ''d1'', client_id = ''cli'', created_at = 0,
                    expires_at = 300, request_ip = Some ''1.2.3.4'',
                    status = Authorized, access_token = Some ''tok-1'' \<rparr>) \<and>
   (0::int) < 5 \<and>
   (\<exists>r'. authorize_device_code ''d1'' ''tok-2'' authorized_once 20 5 = Inr r' \<and>
         get_device_authorization_data ''d1'' r' 20 =
           Inr (Some \<lparr> device_code = ''d1'', client_id = ''cli'', created_at = 0,
                          expires_at = 300, request_ip = Some ''1.2.3.4'',
                          status = Authorized, access_token = Some ''tok-2'' \<rparr>))"
proof -
  have absent: "get_device_authorization_data ''d1'' Map.empty 20 = Inr None"
    by (simp add: get_device_authorization_data_def redis_get_def)
  have present: "get_device_authorization_data ''d1'' authorized_once 20 =
     Inr (Some \<lparr> device_code = ''d1'', client_id = ''cli'', created_at = 0,
                    expires_at = 300, request_ip = Some ''1.2.3.4'',
                    status = Authorized, access_token = Some ''tok-1'' \<rparr>)"
    by (simp add: authorized_once_def get_device_authorization_data_def redis_get_def)
  from absent present
    authorize_device_code_overwrites [of "''d1''" Map.empty 20 "''tok-2''" 5]
    authorize_device_code_overwrites [of "''d1''" authorized_once 20 "''tok-2''" 5
      "\<lparr> device_code = ''d1'', client_id = ''cli'', created_at = 0,
         expires_at = 300, request_ip = Some ''1.2.3.4'',
         status = Authorized, access_token = Some ''tok-1'' \<rparr>"]
  show ?thesis by simp
qed

text \<open>
  C10: a record created at \<open>t0\<close> and authorized at \<open>t1\<close> is stored again with the full
  TTL counted from \<open>t1\<close>, while its \<open>expires_at\<close> stays \<open>t0 + TTL\<close>. So every lookup at a
  time \<open>t2\<close> with \<open>t1 \<le> t2 < t1 + TTL\<close> returns the authorized record, and when the
  record was authorized more than a second after its creation, there is such a lookup
  time that is later than the \<open>expires_at\<close> of the record it returns.
\<close>

theorem authorize_keeps_expires_at:
  assumes created: "create_and_store_device_code uc cid ip r t0 ttl dc = Inr (dc', r1)"
      and authorized: "authorize_device_code dc tok r1 t1 ttl = Inr r2"
  shows "(\<forall>t2. t1 \<le> t2 \<and> t2 < t1 + ttl * 60 \<longrightarrow>
            get_device_authorization_data dc r2 t2 =
              Inr (Some \<lparr> device_code = dc, client_id = cid, created_at = t0,
                             expires_at = t0 + ttl * 60, request_ip = ip,
                             status = Authorized, access_token = Some tok \<rparr>)) \<and>
         (t0 + 1 < t1 \<longrightarrow>
            (\<exists>t2 d. get_device_authorization_data dc r2 t2 = Inr (Some d) \<and>
                    status d = Authorized \<and> expires_at d < t2))"
proof -
  let ?d = "\<lparr> device_code = dc, client_id = cid, created_at = t0,
               expires_at = t0 + ttl * 60, request_ip = ip,
               status = Authorized, access_token = Some tok \<rparr>"
  from created have pos: "0 < ttl * 60"
    by (auto simp: create_and_store_device_code_def redis_set_def Let_def split: if_splits)
  from created have r1: "r1 (''auth:device:'' @ dc) =
      Some (RecordJson \<lparr> device_code = dc, client_id = cid, created_at = t0,
                         expires_at = t0 + ttl * 60, request_ip = ip,
                         status = Pending, access_token = None \<rparr>, t0 + ttl * 60)"
    by (auto simp: create_and_store_device_code_def redis_set_def Let_def split: if_splits)
  from authorized r1 pos have set2:
    "redis_set r1 t1 (''auth:device:'' @ dc) (RecordJson ?d) (ttl * 60) = Inr r2"
    by (auto simp: authorize_device_code_def get_device_authorization_data_def
        redis_get_def split: if_splits)
  have always: "get_device_authorization_data dc r2 t2 = Inr (Some ?d)"
    if "t1 \<le> t2" "t2 < t1 + ttl * 60" for t2
    using get_after_set [OF pos that set2] .
  have stale: "\<exists>t2 d. get_device_authorization_data dc r2 t2 = Inr (Some d) \<and>
      status d = Authorized \<and> expires_at d < t2" if late: "t0 + 1 < t1"
  proof -
    have "get_device_authorization_data dc r2 (t1 + ttl * 60 - 1) = Inr (Some ?d)"
      using pos by (intro always) auto
    moreover have "expires_at ?d < t1 + ttl * 60 - 1"
      using late by simp
    ultimately show ?thesis
      by (intro exI [of _ "t1 + ttl * 60 - 1"] exI [of _ ?d]) simp
  qed
  from always stale show ?thesis by blast
qed

theorem authorize_keeps_expires_at_witness:
  "create_and_store_device_code ''u1'' ''cli'' (Some ''1.2.3.4'') Map.empty 0 5 ''d1'' =
     Inr (''d1'', projr (redis_set
       (projr (redis_set Map.empty 0 ''auth:device:d1''
          (RecordJson \<lparr> device_code = ''d1'', client_id = ''cli'', created_at = 0,
             expires_at = 300, request_ip = Some ''1.2.3.4'',
             status = Pending, access_token = None \<rparr>) 300))
       0 ''auth:user-code:u1'' (Bytes ''d1'') 300)) \<and>
   \<not> isl (authorize_device_code ''d1'' ''tok-123''
       (snd (projr (create_and_store_device_code ''u1'' ''cli'' (Some ''1.2.3.4'')
          Map.empty 0 5 ''d1''))) 299 5) \<and>
   get_device_authorization_data ''d1''
     (projr (authorize_device_code ''d1'' ''tok-123''
       (snd (projr (create_and_store_device_code ''u1'' ''cli'' (Some ''1.2.3.4'')
          Map.empty 0 5 ''d1''))) 299 5)) 500 =
     Inr (Some \<lparr> device_code = ''d1'', client_id = ''cli'', created_at = 0,
                    expires_at = 300, request_ip = Some ''1.2.3.4'',
                    status = Authorized, access_token = Some ''tok-123'' \<rparr>) \<and>
   (300::int) < 500"
proof -
  let ?r1 = "snd (projr (create_and_store_device_code ''u1'' ''cli'' (Some ''1.2.3.4'')
          Map.empty 0 5 ''d1''))"
  let ?r2 = "projr (authorize_device_code ''d1'' ''tok-123'' ?r1 299 5)"
  have created: "create_and_store_device_code ''u1'' ''cli'' (Some ''1.2.3.4'')
      Map.empty 0 5 ''d1'' = Inr (''d1'', ?r1)"
    by (simp add: create_and_store_device_code_def redis_set_def)
  have ok: "\<not> isl (authorize_device_code ''d1'' ''tok-123'' ?r1 299 5)"
    by (simp add: create_and_store_device_code_def redis_set_def
        authorize_device_code_def get_device_authorization_data_def redis_get_def)
  then have authorized: "authorize_device_code ''d1'' ''tok-123'' ?r1 299 5 = Inr ?r2"
    by (cases "authorize_device_code ''d1'' ''tok-123'' ?r1 299 5") simp_all
  from authorize_keeps_expires_at [OF created authorized]
  have "get_device_authorization_data ''d1'' ?r2 500 =
     Inr (Some \<lparr> device_code = ''d1'', client_id = ''cli'', created_at = 0,
                    expires_at = 0 + 5 * 60, request_ip = Some ''1.2.3.4'',
                    status = Authorized, access_token = Some ''tok-123'' \<rparr>)"
    by simp
  with ok show ?thesis
    by (simp add: create_and_store_device_code_def redis_set_def)
qed

section \<open>Signed tokens: theorems\<close>

lemma split_kind_prefix:
  "CHR ''-'' \<notin> set k \<Longrightarrow> split_maxsplit1 CHR ''-'' (k @ CHR ''-'' # e) = [k, e]"
  by (simp add: split_maxsplit1_def Let_def takeWhile_append dropWhile_append)

lemma split_reset:
  "split_maxsplit1 CHR ''-'' (CHR ''r'' # CHR ''e'' # CHR ''s'' # CHR ''e'' # CHR ''t'' # CHR ''-'' # e)
     = [''reset'', e]"
  using split_kind_prefix [of "''reset''" e] by simp

lemma split_email:
  "split_maxsplit1 CHR ''-'' (CHR ''e'' # CHR ''m'' # CHR ''a'' # CHR ''i'' # CHR ''l'' # CHR ''-'' # e)
     = [''email'', e]"
  using split_kind_prefix [of "''email''" e] by simp

text \<open>
  C8: a password-reset (or email-verification) token issued for \<open>e\<close> at \<open>now\<close> and verified
  by the verifier of the same kind at a time \<open>t\<close> before its expiry gives back \<open>e\<close>. Verified
  at or after its expiry, by the verifier of the other kind, or with any other signature in
  place of its own, the result is the one value \<open>None\<close>.
\<close>

theorem token_round_trip:
  "(now \<le> t \<and> t < now + hours * 3600 \<longrightarrow>
      verify_password_reset_token mac key t
        (generate_password_reset_token mac key hours now e) = Inr (Some e)) \<and>
   (now \<le> t \<and> t < now + hours * 3600 \<longrightarrow>
      verify_email_verification_token mac key t
        (generate_verification_email_token mac key hours now e) = Inr (Some e)) \<and>
   (now + hours * 3600 \<le> t \<longrightarrow>
      verify_password_reset_token mac key t
        (generate_password_reset_token mac key hours now e) = Inr None \<and>
      verify_email_verification_token mac key t
        (generate_verification_email_token mac key hours now e) = Inr None) \<and>
   verify_password_reset_token mac key t
     (generate_verification_email_token mac key hours now e) = Inr None \<and>
   verify_email_verification_token mac key t
     (generate_password_reset_token mac key hours now e) = Inr None \<and>
   (generate_password_reset_token mac key hours now e = Signed p s \<and> s' \<noteq> s \<longrightarrow>
      verify_password_reset_token mac key t (Signed p s') = Inr None) \<and>
   (generate_verification_email_token mac key hours now e = Signed p s \<and> s' \<noteq> s \<longrightarrow>
      verify_email_verification_token mac key t (Signed p s') = Inr None)"
  by (auto simp: verify_password_reset_token_def verify_email_verification_token_def
      generate_password_reset_token_def generate_verification_email_token_def
      jwt_encode_def Let_def split_reset split_email)

theorem token_round_trip_witness:
  "(1000::int) \<le> 2000 \<and> (2000::int) < 1000 + 48 * 3600 \<and>
   verify_password_reset_token example_hs256 ''k'' 2000
     (generate_password_reset_token example_hs256 ''k'' 48 1000 ''a-b@x.org'') =
     Inr (Some ''a-b@x.org'') \<and>
   verify_email_verification_token example_hs256 ''k'' 2000
     (generate_verification_email_token example_hs256 ''k'' 48 1000 ''a-b@x.org'') =
     Inr (Some ''a-b@x.org'') \<and>
   (1000::int) + 48 * 3600 \<le> 173800 \<and>
   verify_password_reset_token example_hs256 ''k'' 173800
     (generate_password_reset_token example_hs256 ''k'' 48 1000 ''a-b@x.org'') = Inr None \<and>
   verify_password_reset_token example_hs256 ''k'' 2000
     (generate_verification_email_token example_hs256 ''k'' 48 1000 ''a-b@x.org'') = Inr None \<and>
   generate_password_reset_token example_hs256 ''k'' 48 1000 ''a-b@x.org'' =
     Signed \<lparr> jwt_exp = Some 173800, jwt_nbf = Some 1000,
              jwt_sub = Some ''reset-a-b@x.org'', jwt_old_email = None \<rparr>
       ''k/reset-a-b@x.org'' \<and>
   ''forged'' \<noteq> ''k/reset-a-b@x.org'' \<and>
   verify_password_reset_token example_hs256 ''k'' 2000
     (Signed \<lparr> jwt_exp = Some 173800, jwt_nbf = Some 1000,
               jwt_sub = Some ''reset-a-b@x.org'', jwt_old_email = None \<rparr> ''forged'') =
     Inr None"
proof -
  have issued: "generate_password_reset_token example_hs256 ''k'' 48 1000 ''a-b@x.org'' =
     Signed \<lparr> jwt_exp = Some 173800, jwt_nbf = Some 1000,
              jwt_sub = Some ''reset-a-b@x.org'', jwt_old_email = None \<rparr>
       ''k/reset-a-b@x.org''"
    by (simp add: generate_password_reset_token_def jwt_encode_def example_hs256_def)
  from issued
    token_round_trip [where now = 1000 and t = 2000 and hours = 48 and mac = example_hs256
      and key = "''k''" and e = "''a-b@x.org''" and s' = "''forged''"
      and s = "''k/reset-a-b@x.org''"
      and p = "\<lparr> jwt_exp = Some 173800, jwt_nbf = Some 1000,
                 jwt_sub = Some ''reset-a-b@x.org'', jwt_old_email = None \<rparr>"]
    token_round_trip [where now = 1000 and t = 173800 and hours = 48 and mac = example_hs256
      and key = "''k''" and e = "''a-b@x.org''" and s' = "''forged''"
      and s = "''k/reset-a-b@x.org''"
      and p = "\<lparr> jwt_exp = Some 173800, jwt_nbf = Some 1000,
                 jwt_sub = Some ''reset-a-b@x.org'', jwt_old_email = None \<rparr>"]
  show ?thesis by simp
qed

section \<open>PKCE: theorems\<close>

lemma alphabet_length: "length urlsafe_alphabet = 64"
  by (simp add: urlsafe_alphabet_def)

lemma alphabet_distinct: "distinct urlsafe_alphabet"
  by (simp add: urlsafe_alphabet_def)

lemma alphabet_ascii: "c \<in> set urlsafe_alphabet \<Longrightarrow> (of_char c :: nat) < 128 \<and> c \<noteq> CHR ''=''"
  by (auto simp: urlsafe_alphabet_def)

lemma b64char_in: "n < 64 \<Longrightarrow> b64char n \<in> set urlsafe_alphabet"
  by (simp add: b64char_def alphabet_length)

lemma b64index_b64char: "n < 64 \<Longrightarrow> b64index (b64char n) = n"
proof -
  assume n: "n < 64"
  have "takeWhile (\<lambda>x. x \<noteq> urlsafe_alphabet ! n) urlsafe_alphabet = take n urlsafe_alphabet"
    using n alphabet_distinct
    by (intro takeWhile_eq_take_P_nth) (auto simp: nth_eq_iff_index_eq alphabet_length)
  then show ?thesis
    using n by (simp add: b64index_def b64char_def alphabet_length)
qed

lemma byte_bound: "unat (a :: byte) < 256"
  using unsigned_less [of a] by simp

lemma sextet_hi: "(x::nat) < 256 \<Longrightarrow> x div 4 < 64"
  by simp

lemma sextet_mid1: "(y::nat) < 256 \<Longrightarrow> x mod 4 * 16 + y div 16 < 64"
proof -
  assume "y < 256"
  then have "y div 16 \<le> 15" by simp
  moreover have "x mod 4 \<le> 3" by simp
  ultimately show ?thesis by linarith
qed

lemma sextet_mid2: "(z::nat) < 256 \<Longrightarrow> y mod 16 * 4 + z div 64 < 64"
proof -
  assume "z < 256"
  then have "z div 64 \<le> 3" by simp
  moreover have "y mod 16 \<le> 15" by simp
  ultimately show ?thesis by linarith
qed

lemma regroup1: "(y::nat) < 256 \<Longrightarrow> x div 4 * 4 + (x mod 4 * 16 + y div 16) div 16 = x"
proof -
  assume "y < 256"
  then have "y div 16 < 16" by simp
  then have "(x mod 4 * 16 + y div 16) div 16 = x mod 4" by simp
  then show ?thesis by simp
qed

lemma regroup2:
  "(y::nat) < 256 \<Longrightarrow> z < 256 \<Longrightarrow>
   (x mod 4 * 16 + y div 16) mod 16 * 16 + (y mod 16 * 4 + z div 64) div 4 = y"
proof -
  assume "y < 256" "z < 256"
  then have "y div 16 < 16" "z div 64 < 4" by simp_all
  then have "(x mod 4 * 16 + y div 16) mod 16 = y div 16"
    "(y mod 16 * 4 + z div 64) div 4 = y mod 16" by simp_all
  then show ?thesis by simp
qed

lemma regroup3: "(z::nat) < 256 \<Longrightarrow> (y mod 16 * 4 + z div 64) mod 4 * 64 + z mod 64 = z"
proof -
  assume "z < 256"
  then have "z div 64 < 4" by simp
  then have "(y mod 16 * 4 + z div 64) mod 4 = z div 64" by simp
  then show ?thesis by simp
qed

lemma decode_group:
  fixes a b c :: byte
  shows "b64_decode ([b64char (unat a div 4), b64char ((unat a mod 4) * 16 + unat b div 16),
      b64char ((unat b mod 16) * 4 + unat c div 64), b64char (unat c mod 64)] @ rest) =
      [a, b, c] @ b64_decode rest"
  using regroup1 [OF byte_bound [of b], of "unat a"]
    regroup2 [OF byte_bound [of b] byte_bound [of c], of "unat a"]
    regroup3 [OF byte_bound [of c], of "unat b"]
  by (simp add: b64index_b64char sextet_hi sextet_mid1 sextet_mid2 byte_bound)

lemma decode_pair:
  fixes a b :: byte
  shows "b64_decode [b64char (unat a div 4), b64char ((unat a mod 4) * 16 + unat b div 16),
      b64char ((unat b mod 16) * 4)] = [a, b]"
  using regroup1 [OF byte_bound [of b], of "unat a"]
    regroup2 [OF byte_bound [of b], of 0 "unat a"]
    sextet_mid2 [of 0 "unat b"] sextet_mid1 [of 0 "unat a"]
  by (simp add: b64index_b64char sextet_hi sextet_mid1 byte_bound)

lemma decode_single:
  fixes a :: byte
  shows "b64_decode [b64char (unat a div 4), b64char ((unat a mod 4) * 16)] = [a]"
  using regroup1 [of 0 "unat a"] sextet_mid1 [of 0 "unat a"]
  by (simp add: b64index_b64char sextet_hi byte_bound)

lemma decode_nopad: "b64_decode (b64_nopad xs) = xs"
proof (induction xs rule: b64_nopad.induct)
  case (1 a b c r)
  then show ?case
    using decode_group [of a b c "b64_nopad r"] by simp
next
  case (2 a b)
  show ?case using decode_pair [of a b] by simp
next
  case (3 a)
  show ?case using decode_single [of a] by simp
next
  case 4
  show ?case by simp
qed

lemma nopad_inj: "b64_nopad xs = b64_nopad ys \<Longrightarrow> xs = ys"
  by (metis decode_nopad)

lemma nopad_chars: "set (b64_nopad xs) \<subseteq> set urlsafe_alphabet"
  using sextet_mid2 [of 0] sextet_mid1 [of 0]
  by (induction xs rule: b64_nopad.induct)
     (simp_all add: b64char_in sextet_hi sextet_mid1 sextet_mid2 byte_bound)

lemma encode_padding: "\<exists>k. urlsafe_b64encode xs = b64_nopad xs @ replicate k CHR ''=''"
proof (induction xs rule: b64_nopad.induct)
  case (1 a b c r)
  then obtain k where "urlsafe_b64encode r = b64_nopad r @ replicate k CHR ''=''" by blast
  then show ?case by simp
next
  case (2 a b)
  show ?case by (rule exI [of _ "Suc 0"]) simp
next
  case (3 a)
  show ?case by (rule exI [of _ "Suc (Suc 0)"]) simp
next
  case 4
  show ?case by simp
qed

lemma rstrip_padding: "CHR ''='' \<notin> set s \<Longrightarrow> rstrip_eq (s @ replicate k CHR ''='') = s"
proof -
  assume "CHR ''='' \<notin> set s"
  then have "dropWhile (\<lambda>c. c = CHR ''='') (rev s) = rev s"
    by (cases "rev s") (auto simp: dropWhile_eq_self_iff)
  then show ?thesis
    by (simp add: rstrip_eq_def dropWhile_append)
qed

lemma rstrip_encode: "rstrip_eq (urlsafe_b64encode xs) = b64_nopad xs"
proof -
  obtain k where "urlsafe_b64encode xs = b64_nopad xs @ replicate k CHR ''=''"
    using encode_padding by blast
  moreover have "CHR ''='' \<notin> set (b64_nopad xs)"
    using nopad_chars [of xs] alphabet_ascii by blast
  ultimately show ?thesis
    by (simp add: rstrip_padding)
qed

lemma nopad_ascii: "is_ascii (b64_nopad xs)"
  using nopad_chars [of xs] alphabet_ascii
  by (auto simp: is_ascii_def list_all_iff)

lemma challenge_ascii:
  "is_ascii v \<Longrightarrow>
   calculate_s256_challenge v = Inr (b64_nopad (sha256 (map (\<lambda>c. word_of_nat (of_char c)) v)))"
  by (simp add: calculate_s256_challenge_def encode_ascii_def rstrip_encode)

lemma sha256_test:
  "sha256 [116, 101, 115, 116] =
     [159, 134, 208, 129, 136, 76, 125, 101, 154, 47, 234, 160, 197, 90, 208, 21,
      163, 191, 79, 27, 43, 11, 130, 44, 209, 93, 108, 21, 176, 240, 10, 8]"
  by code_simp

lemma sha256_wrong:
  "sha256 [119, 114, 111, 110, 103] =
     [136, 16, 173, 88, 30, 89, 242, 188, 57, 40, 178, 97, 112, 122, 113, 48,
      143, 126, 19, 158, 176, 72, 32, 54, 109, 196, 213, 193, 141, 152, 2, 37]"
  by code_simp

lemma challenge_test:
  "calculate_s256_challenge ''test'' = Inr ''n4bQgYhMfWWaL-qgxVrQFaO_TxsrC4Is0V1sFbDwCgg''"
proof -
  have "is_ascii ''test''" by (simp add: is_ascii_def)
  from challenge_ascii [OF this] show ?thesis
    by (simp add: sha256_test b64char_def urlsafe_alphabet_def)
qed

text \<open>
  C3 (as stated, refuted): for the verifier \<open>\<eacute>\<close> (two bytes in UTF-8), computing the
  challenge raises \<open>UnicodeEncodeError\<close>, and so does validating any stored challenge
  against it: the result is not \<open>True\<close>.
\<close>

theorem pkce_non_ascii_counterexample:
  "calculate_s256_challenge [CHR 0xC3, CHR 0xA9] = Inl UnicodeEncodeError \<and>
   (case calculate_s256_challenge [CHR 0xC3, CHR 0xA9] of
      Inl e \<Rightarrow> Inl e
    | Inr c \<Rightarrow> validate_pkce c ''S256'' [CHR 0xC3, CHR 0xA9]) \<noteq> Inr True \<and>
   validate_pkce ''n4bQgYhMfWWaL-qgxVrQFaO_TxsrC4Is0V1sFbDwCgg'' ''S256'' [CHR 0xC3, CHR 0xA9] =
     Inl UnicodeEncodeError"
  by (simp add: calculate_s256_challenge_def validate_pkce_def encode_ascii_def is_ascii_def)

text \<open>
  C3 (amended): for every ASCII verifier \<open>v\<close>, the challenge of \<open>v\<close> validates against
  \<open>v\<close> under \<open>S256\<close>. For ASCII verifiers \<open>v1\<close> and \<open>v2\<close>, validating the challenge of
  \<open>v1\<close> against \<open>v2\<close> returns whether their SHA-256 digests are equal, so it is false
  whenever the digests differ. For every stored method other than \<open>S256\<close>, and any
  challenge and verifier, validation raises \<open>ValueError\<close>.
\<close>

theorem pkce_validate:
  "(is_ascii v \<longrightarrow>
      (\<exists>c. calculate_s256_challenge v = Inr c \<and> validate_pkce c ''S256'' v = Inr True)) \<and>
   (is_ascii v1 \<and> is_ascii v2 \<longrightarrow>
      (\<exists>c. calculate_s256_challenge v1 = Inr c \<and>
           validate_pkce c ''S256'' v2 =
             Inr (sha256 (map (\<lambda>c. word_of_nat (of_char c)) v2) =
                  sha256 (map (\<lambda>c. word_of_nat (of_char c)) v1)))) \<and>
   (m \<noteq> ''S256'' \<longrightarrow>
      validate_pkce c m w = Inl (ValueError ''Unsupported code challenge method''))"
proof -
  have same: "validate_pkce (b64_nopad (sha256 (map (\<lambda>c. word_of_nat (of_char c)) x))) ''S256'' y =
      Inr (sha256 (map (\<lambda>c. word_of_nat (of_char c)) y) =
           sha256 (map (\<lambda>c. word_of_nat (of_char c)) x))"
    if "is_ascii y" for x y
    using that nopad_inj
    by (auto simp: validate_pkce_def challenge_ascii compare_digest_def nopad_ascii)
  show ?thesis
    by (auto simp: challenge_ascii same) (simp add: validate_pkce_def)
qed

theorem pkce_validate_witness:
  "is_ascii ''test'' \<and>
   calculate_s256_challenge ''test'' = Inr ''n4bQgYhMfWWaL-qgxVrQFaO_TxsrC4Is0V1sFbDwCgg'' \<and>
   validate_pkce ''n4bQgYhMfWWaL-qgxVrQFaO_TxsrC4Is0V1sFbDwCgg'' ''S256'' ''test'' = Inr True \<and>
   is_ascii ''wrong'' \<and>
   validate_pkce ''n4bQgYhMfWWaL-qgxVrQFaO_TxsrC4Is0V1sFbDwCgg'' ''S256'' ''wrong'' = Inr False \<and>
   ''plain'' \<noteq> ''S256'' \<and>
   validate_pkce ''n4bQgYhMfWWaL-qgxVrQFaO_TxsrC4Is0V1sFbDwCgg'' ''plain'' ''test'' =
     Inl (ValueError ''Unsupported code challenge method'')"
proof -
  have ascii: "is_ascii ''test''" "is_ascii ''wrong''"
    by (simp_all add: is_ascii_def)
  from ascii challenge_test
    pkce_validate [of "''test''" "''test''" "''wrong''" "''plain''"
      "''n4bQgYhMfWWaL-qgxVrQFaO_TxsrC4Is0V1sFbDwCgg''" "''test''"]
  show ?thesis
    by (simp add: sha256_test sha256_wrong)
qed

section \<open>The provider engine: theorems\<close>

text \<open>
  C2: \<open>authorize\<close> answers a missing (or empty), an invalid or an untrusted
  \<open>redirect_uri\<close> with a bare error and leaves the context as it was. Once the
  \<open>redirect_uri\<close> is validated and trusted, a missing or unsupported \<open>response_type\<close>, a
  missing \<open>code_challenge\<close> and a \<open>code_challenge_method\<close> other than \<open>S256\<close> are
  answered by an error redirect to that URI, with the error \<open>invalid_request\<close> and a
  description. Every error redirect of \<open>authorize\<close> goes to a URI that is the validated
  form of the request's \<open>redirect_uri\<close> and is trusted by the context.
\<close>

theorem authorize_error_shapes:
  "(py_not (query_params request ''redirect_uri'') \<longrightarrow>
      authorize self world st request ctx =
        (Inr (Response_error ''invalid_request'' None None), ctx)) \<and>
   (query_params request ''redirect_uri'' = Some raw \<and> raw \<noteq> [] \<and>
    (validate_http_url world raw = None \<or>
     (validate_http_url world raw = Some uri \<and> \<not> is_valid_redirect_uri ctx uri)) \<longrightarrow>
      authorize self world st request ctx =
        (Inr (Response_error ''invalid_redirect_uri'' None None), ctx)) \<and>
   (query_params request ''redirect_uri'' = Some raw \<and> raw \<noteq> [] \<and>
    validate_http_url world raw = Some uri \<and> is_valid_redirect_uri ctx uri \<and>
    (py_not (query_params request ''response_type'') \<or>
     the (query_params request ''response_type'') \<notin> {''code'', ''link_code''} \<or>
     py_not (query_params request ''code_challenge'') \<or>
     query_params request ''code_challenge_method'' \<noteq> Some ''S256'') \<longrightarrow>
      (\<exists>description. authorize self world st request ctx =
         (Inr (Response_error_redirect uri ''invalid_request'' description), ctx))) \<and>
   (authorize self world st request ctx =
      (Inr (Response_error_redirect target error description), ctx') \<longrightarrow>
      (\<exists>raw'. query_params request ''redirect_uri'' = Some raw' \<and> raw' \<noteq> [] \<and>
         validate_http_url world raw' = Some target \<and> is_valid_redirect_uri ctx target))"
proof (intro conjI impI)
  assume "py_not (query_params request ''redirect_uri'')"
  then show "authorize self world st request ctx =
      (Inr (Response_error ''invalid_request'' None None), ctx)"
    by (simp add: authorize_def)
next
  assume "query_params request ''redirect_uri'' = Some raw \<and> raw \<noteq> [] \<and>
    (validate_http_url world raw = None \<or>
     (validate_http_url world raw = Some uri \<and> \<not> is_valid_redirect_uri ctx uri))"
  then show "authorize self world st request ctx =
      (Inr (Response_error ''invalid_redirect_uri'' None None), ctx)"
    by (auto simp: authorize_def)
next
  assume "query_params request ''redirect_uri'' = Some raw \<and> raw \<noteq> [] \<and>
    validate_http_url world raw = Some uri \<and> is_valid_redirect_uri ctx uri \<and>
    (py_not (query_params request ''response_type'') \<or>
     the (query_params request ''response_type'') \<notin> {''code'', ''link_code''} \<or>
     py_not (query_params request ''code_challenge'') \<or>
     query_params request ''code_challenge_method'' \<noteq> Some ''S256'')"
  then show "\<exists>description. authorize self world st request ctx =
         (Inr (Response_error_redirect uri ''invalid_request'' description), ctx)"
    by (auto simp: authorize_def Let_def)
next
  assume "authorize self world st request ctx =
      (Inr (Response_error_redirect target error description), ctx')"
  then show "\<exists>raw'. query_params request ''redirect_uri'' = Some raw' \<and> raw' \<noteq> [] \<and>
         validate_http_url world raw' = Some target \<and> is_valid_redirect_uri ctx target"
    by (cases "query_params request ''redirect_uri''")
       (auto simp: authorize_def Let_def split: if_splits option.splits)
qed

theorem authorize_error_shapes_witness:
  "py_not (query_params (get_request ''http://localhost:8000/test/authorize'' []) ''redirect_uri'') \<and>
   authorize test_provider (test_world []) ''s1''
       (get_request ''http://localhost:8000/test/authorize'' []) test_context =
     (Inr (Response_error ''invalid_request'' None None), test_context) \<and>
   validate_http_url (test_world []) ''not a url'' = None \<and>
   authorize test_provider (test_world []) ''s1''
       (get_request ''http://localhost:8000/test/authorize'' [(''redirect_uri'', ''not a url'')])
       test_context =
     (Inr (Response_error ''invalid_redirect_uri'' None None), test_context) \<and>
   validate_http_url (test_world []) ''http://malicious.com/callback'' =
     Some ''http://malicious.com/callback'' \<and>
   \<not> is_valid_redirect_uri test_context ''http://malicious.com/callback'' \<and>
   authorize test_provider (test_world []) ''s1''
       (get_request ''http://localhost:8000/test/authorize''
          [(''redirect_uri'', ''http://malicious.com/callback''), (''response_type'', ''code'')])
       test_context =
     (Inr (Response_error ''invalid_redirect_uri'' None None), test_context) \<and>
   is_valid_redirect_uri test_context ''http://valid-frontend.com/callback'' \<and>
   authorize test_provider (test_world []) ''s1''
       (get_request ''http://localhost:8000/test/authorize''
          [(''redirect_uri'', ''http://valid-frontend.com/callback''),
           (''response_type'', ''invalid'')])
       test_context =
     (Inr (Response_error_redirect ''http://valid-frontend.com/callback'' ''invalid_request''
             ''Unsupported response type''), test_context) \<and>
   (\<exists>description.
      authorize test_provider (test_world []) ''s1''
          (get_request ''http://localhost:8000/test/authorize''
             [(''redirect_uri'', ''http://valid-frontend.com/callback''),
              (''response_type'', ''code''), (''code_challenge'', ''abc''),
              (''code_challenge_method'', ''plain'')])
          test_context =
        (Inr (Response_error_redirect ''http://valid-frontend.com/callback''
                ''invalid_request'' description), test_context))"
proof -
  let ?url = "''http://localhost:8000/test/authorize''"
  let ?ok = "''http://valid-frontend.com/callback''"
  let ?bad = "''http://malicious.com/callback''"
  let ?r3 = "get_request ?url [(''redirect_uri'', ?bad), (''response_type'', ''code'')]"
  let ?r4 = "get_request ?url [(''redirect_uri'', ?ok), (''response_type'', ''invalid'')]"
  let ?r5 = "get_request ?url [(''redirect_uri'', ?ok), (''response_type'', ''code''),
     (''code_challenge'', ''abc''), (''code_challenge_method'', ''plain'')]"
  have facts:
    "py_not (query_params (get_request ?url []) ''redirect_uri'')"
    "query_params (get_request ?url [(''redirect_uri'', ''not a url'')]) ''redirect_uri'' =
       Some ''not a url''"
    "validate_http_url (test_world []) ''not a url'' = None"
    "query_params ?r3 ''redirect_uri'' = Some ?bad"
    "query_params ?r4 ''redirect_uri'' = Some ?ok"
    "query_params ?r5 ''redirect_uri'' = Some ?ok"
    "validate_http_url (test_world []) ?bad = Some ?bad"
    "validate_http_url (test_world []) ?ok = Some ?ok"
    "\<not> is_valid_redirect_uri test_context ?bad"
    "is_valid_redirect_uri test_context ?ok"
    "the (query_params ?r4 ''response_type'') \<notin> {''code'', ''link_code''}"
    "query_params ?r5 ''code_challenge_method'' \<noteq> Some ''S256''"
    by (simp_all add: get_request_def test_world_def test_context_def)
  have shape: "authorize test_provider (test_world []) ''s1'' ?r4 test_context =
     (Inr (Response_error_redirect ?ok ''invalid_request'' ''Unsupported response type''),
      test_context)"
    by (simp add: authorize_def get_request_def test_world_def test_context_def)
  from facts shape
    authorize_error_shapes [where request = "get_request ?url []" and self = test_provider
      and world = "test_world []" and st = "''s1''" and ctx = test_context]
    authorize_error_shapes [where request = "get_request ?url [(''redirect_uri'', ''not a url'')]"
      and self = test_provider and world = "test_world []" and st = "''s1''"
      and ctx = test_context and raw = "''not a url''"]
    authorize_error_shapes [where request = ?r3 and self = test_provider
      and world = "test_world []" and st = "''s1''" and ctx = test_context
      and raw = ?bad and uri = ?bad]
    authorize_error_shapes [where request = ?r5 and self = test_provider
      and world = "test_world []" and st = "''s1''" and ctx = test_context
      and raw = ?ok and uri = ?ok]
  show ?thesis by simp
qed

text \<open>
  C5: \<open>callback\<close> without a \<open>state\<close> parameter, with a state under which nothing is
  stored, or with a stored value that is no authorization request, answers with a bare
  \<open>server_error\<close> and leaves the context as it was. When the stored request was loaded
  and the \<open>code\<close> parameter is missing, the answer is an error redirect to the stored
  \<open>redirect_uri\<close>.
\<close>

theorem callback_error_shapes:
  "(py_not (query_params request ''state'') \<longrightarrow>
      callback self world now nc request ctx =
        (Inr (Response_error ''server_error'' (Some ''No state found in request'') None), ctx)) \<and>
   (query_params request ''state'' = Some s \<and> s \<noteq> [] \<and>
    secondary_storage ctx (''oauth:authorization_request:'' @ s) = None \<longrightarrow>
      callback self world now nc request ctx =
        (Inr (Response_error ''server_error'' (Some ''Provider data not found'') None), ctx)) \<and>
   (query_params request ''state'' = Some s \<and> s \<noteq> [] \<and>
    secondary_storage ctx (''oauth:authorization_request:'' @ s) = Some raw \<and>
    validate_authorization_request raw = Inl e \<longrightarrow>
      (\<exists>description. callback self world now nc request ctx =
         (Inr (Response_error ''server_error'' (Some description) None), ctx))) \<and>
   (query_params request ''state'' = Some s \<and> s \<noteq> [] \<and>
    secondary_storage ctx (''oauth:authorization_request:'' @ s) = Some raw \<and>
    validate_authorization_request raw = Inr provider_data \<and>
    py_not (query_params request ''code'') \<longrightarrow>
      callback self world now nc request ctx =
        (Inr (Response_error_redirect (ar_redirect_uri provider_data) ''server_error''
                ''No authorization code received in callback''), ctx))"
proof (intro conjI impI)
  assume "py_not (query_params request ''state'')"
  then show "callback self world now nc request ctx =
      (Inr (Response_error ''server_error'' (Some ''No state found in request'') None), ctx)"
    by (simp add: callback_def)
next
  assume "query_params request ''state'' = Some s \<and> s \<noteq> [] \<and>
    secondary_storage ctx (''oauth:authorization_request:'' @ s) = None"
  then show "callback self world now nc request ctx =
      (Inr (Response_error ''server_error'' (Some ''Provider data not found'') None), ctx)"
    by (simp add: callback_def)
next
  assume "query_params request ''state'' = Some s \<and> s \<noteq> [] \<and>
    secondary_storage ctx (''oauth:authorization_request:'' @ s) = Some raw \<and>
    validate_authorization_request raw = Inl e"
  then show "\<exists>description. callback self world now nc request ctx =
      (Inr (Response_error ''server_error'' (Some description) None), ctx)"
    by (simp add: callback_def)
next
  assume a: "query_params request ''state'' = Some s \<and> s \<noteq> [] \<and>
    secondary_storage ctx (''oauth:authorization_request:'' @ s) = Some raw \<and>
    validate_authorization_request raw = Inr provider_data \<and>
    py_not (query_params request ''code'')"
  then have "stored_truthy raw"
    by (cases raw) simp_all
  with a show "callback self world now nc request ctx =
      (Inr (Response_error_redirect (ar_redirect_uri provider_data) ''server_error''
              ''No authorization code received in callback''), ctx)"
    by (simp add: callback_def)
qed

theorem callback_error_shapes_witness:
  "py_not (query_params (callback_request [(''code'', ''1234567890'')]) ''state'') \<and>
   callback test_provider (test_world []) 1000 ''c1''
       (callback_request [(''code'', ''1234567890'')]) callback_context =
     (Inr (Response_error ''server_error'' (Some ''No state found in request'') None),
      callback_context) \<and>
   secondary_storage callback_context (''oauth:authorization_request:'' @ ''unknown'') = None \<and>
   callback test_provider (test_world []) 1000 ''c1''
       (callback_request [(''state'', ''unknown''), (''code'', ''1234567890'')])
       callback_context =
     (Inr (Response_error ''server_error'' (Some ''Provider data not found'') None),
      callback_context) \<and>
   validate_authorization_request (RawString ''{}'') = Inl ValidationError \<and>
   callback test_provider (test_world []) 1000 ''c1''
       (callback_request [(''state'', ''st-bad''), (''code'', ''1234567890'')])
       callback_context =
     (Inr (Response_error ''server_error'' (Some ''Invalid provider data'') None),
      callback_context) \<and>
   validate_authorization_request (AuthorizationRequestJson stored_request) =
     Inr stored_request \<and>
   py_not (query_params (callback_request [(''state'', ''st-1'')]) ''code'') \<and>
   callback test_provider (test_world []) 1000 ''c1''
       (callback_request [(''state'', ''st-1'')]) callback_context =
     (Inr (Response_error_redirect ''http://valid-frontend.com/callback'' ''server_error''
             ''No authorization code received in callback''), callback_context)"
proof -
  let ?r1 = "callback_request [(''code'', ''1234567890'')]"
  let ?r2 = "callback_request [(''state'', ''unknown''), (''code'', ''1234567890'')]"
  let ?r3 = "callback_request [(''state'', ''st-bad''), (''code'', ''1234567890'')]"
  let ?r4 = "callback_request [(''state'', ''st-1'')]"
  have facts:
    "py_not (query_params ?r1 ''state'')"
    "query_params ?r2 ''state'' = Some ''unknown''"
    "query_params ?r3 ''state'' = Some ''st-bad''"
    "query_params ?r4 ''state'' = Some ''st-1''"
    "py_not (query_params ?r4 ''code'')"
    "secondary_storage callback_context (''oauth:authorization_request:'' @ ''unknown'') = None"
    "secondary_storage callback_context (''oauth:authorization_request:'' @ ''st-bad'') =
       Some (RawString ''{}'')"
    "secondary_storage callback_context (''oauth:authorization_request:'' @ ''st-1'') =
       Some (AuthorizationRequestJson stored_request)"
    "validate_authorization_request (RawString ''{}'') = Inl ValidationError"
    "validate_authorization_request (AuthorizationRequestJson stored_request) =
       Inr stored_request"
    "ar_redirect_uri stored_request = ''http://valid-frontend.com/callback''"
    by (simp_all add: callback_request_def get_request_def callback_context_def
        test_context_def stored_request_def)
  have bad: "callback test_provider (test_world []) 1000 ''c1'' ?r3 callback_context =
     (Inr (Response_error ''server_error'' (Some ''Invalid provider data'') None),
      callback_context)"
    using facts by (simp add: callback_def)
  from facts bad
    callback_error_shapes [where request = ?r1 and self = test_provider
      and world = "test_world []" and now = 1000 and nc = "''c1''" and ctx = callback_context]
    callback_error_shapes [where request = ?r2 and self = test_provider
      and world = "test_world []" and now = 1000 and nc = "''c1''" and ctx = callback_context
      and s = "''unknown''"]
    callback_error_shapes [where request = ?r3 and self = test_provider
      and world = "test_world []" and now = 1000 and nc = "''c1''" and ctx = callback_context
      and s = "''st-bad''" and raw = "RawString ''{}''" and e = ValidationError]
    callback_error_shapes [where request = ?r4 and self = test_provider
      and world = "test_world []" and now = 1000 and nc = "''c1''" and ctx = callback_context
      and s = "''st-1''" and raw = "AuthorizationRequestJson stored_request"
      and provider_data = stored_request]
  show ?thesis by simp
qed

text \<open>
  C6: in a callback that is no link request, when the upstream identity has no social
  account but a user with the upstream email exists, the answer is an error redirect to
  the stored \<open>redirect_uri\<close> with the error \<open>account_exists\<close>, and the context after
  the call is the context before it: no user, no social account and no authorization
  code grant was created.
\<close>

theorem callback_account_exists:
  assumes "query_params request ''state'' = Some s" "s \<noteq> []"
    and "secondary_storage ctx (''oauth:authorization_request:'' @ s) = Some raw"
    and "validate_authorization_request raw = Inr provider_data"
    and "\<not> ar_link provider_data"
    and "query_params request ''code'' = Some c" "c \<noteq> []"
    and "fetch_user_info self world request c ctx = Inr (user_info, token_response)"
    and "user_info ''email'' = Some email" "user_info ''id'' = Some provider_user_id"
    and "find_social_account (accounts_storage ctx) (accounts ctx) (provider_id self)
           provider_user_id = None"
    and "find_user_by_email (accounts_storage ctx) (accounts ctx) email = Some user"
  shows "callback self world now nc request ctx =
           (Inr (Response_error_redirect (ar_redirect_uri provider_data) ''account_exists''
                   ''An account with this email already exists.''), ctx)"
proof -
  from assms(3,4) have "stored_truthy raw"
    by (cases raw) simp_all
  with assms show ?thesis
    by (simp add: callback_def getitem_def)
qed

lemma fetch_test_user_info:
  "fetch_user_info test_provider (test_world email)
       (callback_request [(''state'', ''st-1''), (''code'', ''1234567890'')])
       ''1234567890'' ctx =
     (if email = [] then Inl (OAuth2Exception ''server_error'' ''No email found in user info'')
      else Inr (Map.empty(''id'' \<mapsto> ''pid-1'', ''email'' \<mapsto> email), test_token))"
  by (simp add: fetch_user_info_def exchange_code_def build_token_exchange_params_def
      get_code_verifier_def test_world_def test_provider_def)

theorem callback_account_exists_witness:
  "fetch_user_info test_provider (test_world ''test@example.com'')
       (callback_request [(''state'', ''st-1''), (''code'', ''1234567890'')])
       ''1234567890'' callback_context =
     Inr (Map.empty(''id'' \<mapsto> ''pid-1'', ''email'' \<mapsto> ''test@example.com''), test_token) \<and>
   find_social_account (accounts_storage callback_context) (accounts callback_context)
       (provider_id test_provider) ''pid-1'' = None \<and>
   find_user_by_email (accounts_storage callback_context) (accounts callback_context)
       ''test@example.com'' = Some test_user \<and>
   callback test_provider (test_world ''test@example.com'') 1000 ''c1''
       (callback_request [(''state'', ''st-1''), (''code'', ''1234567890'')])
       callback_context =
     (Inr (Response_error_redirect ''http://valid-frontend.com/callback'' ''account_exists''
             ''An account with this email already exists.''), callback_context)"
proof -
  let ?r = "callback_request [(''state'', ''st-1''), (''code'', ''1234567890'')]"
  let ?info = "Map.empty(''id'' \<mapsto> ''pid-1'', ''email'' \<mapsto> ''test@example.com'')"
  have request: "query_params ?r ''state'' = Some ''st-1''"
    "query_params ?r ''code'' = Some ''1234567890''"
    by (simp_all add: callback_request_def get_request_def)
  have stored: "secondary_storage callback_context (''oauth:authorization_request:'' @ ''st-1'') =
      Some (AuthorizationRequestJson stored_request)"
    "validate_authorization_request (AuthorizationRequestJson stored_request) =
      Inr stored_request"
    "\<not> ar_link stored_request"
    "ar_redirect_uri stored_request = ''http://valid-frontend.com/callback''"
    by (simp_all add: callback_context_def test_context_def stored_request_def)
  have fetched: "fetch_user_info test_provider (test_world ''test@example.com'') ?r
      ''1234567890'' callback_context = Inr (?info, test_token)"
    by (simp add: fetch_test_user_info)
  have info: "?info ''email'' = Some ''test@example.com''" "?info ''id'' = Some ''pid-1''"
    by simp_all
  have no_account: "find_social_account (accounts_storage callback_context)
      (accounts callback_context) (provider_id test_provider) ''pid-1'' = None"
    by (simp add: callback_context_def test_context_def MemoryAccountsStorage_def
        mem_find_social_account_def all_social_accounts_def test_accounts_def test_user_def)
  have user: "find_user_by_email (accounts_storage callback_context)
      (accounts callback_context) ''test@example.com'' = Some test_user"
    by (simp add: callback_context_def test_context_def MemoryAccountsStorage_def
        mem_find_user_by_email_def test_accounts_def test_user_def)
  from callback_account_exists [OF request(1) _ stored(1,2,3) request(2) _ fetched info
      no_account user, of 1000 "''c1''"]
  have "callback test_provider (test_world ''test@example.com'') 1000 ''c1'' ?r
      callback_context =
     (Inr (Response_error_redirect (ar_redirect_uri stored_request) ''account_exists''
             ''An account with this email already exists.''), callback_context)"
    by simp
  with stored(4) fetched no_account user show ?thesis
    by simp
qed

text \<open>
  C9: in a callback that is no link request, when the upstream identity has a social
  account, its update succeeds, and no user has the account's \<open>user_id\<close>, then no
  response is returned: the handler raises \<open>AttributeError\<close>, after the update of the
  social account has been applied.
\<close>

theorem callback_dangling_account:
  assumes "query_params request ''state'' = Some s" "s \<noteq> []"
    and "secondary_storage ctx (''oauth:authorization_request:'' @ s) = Some raw"
    and "validate_authorization_request raw = Inr provider_data"
    and "\<not> ar_link provider_data"
    and "query_params request ''code'' = Some c" "c \<noteq> []"
    and "fetch_user_info self world request c ctx = Inr (user_info, token_response)"
    and "user_info ''email'' = Some email" "user_info ''id'' = Some provider_user_id"
    and "find_social_account (accounts_storage ctx) (accounts ctx) (provider_id self)
           provider_user_id = Some social_account"
    and "update_social_account (accounts_storage ctx) (accounts ctx) (sa_id social_account)
           (Some (tr_access_token token_response)) (tr_refresh_token token_response)
           (tr_access_token_expires_at token_response)
           (tr_refresh_token_expires_at token_response) (tr_scope token_response) user_info =
         (Inr updated, accounts')"
    and "find_user_by_id (accounts_storage ctx) accounts' (sa_user_id social_account) = None"
  shows "callback self world now nc request ctx =
           (Inl AttributeError, ctx\<lparr> accounts := accounts' \<rparr>)"
proof -
  from assms(3,4) have "stored_truthy raw"
    by (cases raw) simp_all
  with assms show ?thesis
    by (simp add: callback_def getitem_def issue_code_def)
qed

theorem callback_dangling_account_witness:
  "find_social_account (accounts_storage dangling_context) (accounts dangling_context)
       (provider_id test_provider) ''pid-1'' = Some dangling_account \<and>
   find_user_by_id (accounts_storage dangling_context)
       \<lparr> ms_data = [(''test'', test_user\<lparr> u_social_accounts :=
            [dangling_account\<lparr> sa_access_token := Some ''at-1'',
               sa_scope := Some ''openid email profile'' \<rparr>] \<rparr>)],
         ms_uuids_drawn = 1 \<rparr>
       (sa_user_id dangling_account) = None \<and>
   callback test_provider (test_world ''ghost@example.com'') 1000 ''c1''
       (callback_request [(''state'', ''st-1''), (''code'', ''1234567890'')])
       dangling_context =
     (Inl AttributeError,
      dangling_context\<lparr> accounts :=
        \<lparr> ms_data = [(''test'', test_user\<lparr> u_social_accounts :=
             [dangling_account\<lparr> sa_access_token := Some ''at-1'',
                sa_scope := Some ''openid email profile'' \<rparr>] \<rparr>)],
          ms_uuids_drawn = 1 \<rparr> \<rparr>)"
proof -
  let ?r = "callback_request [(''state'', ''st-1''), (''code'', ''1234567890'')]"
  let ?info = "Map.empty(''id'' \<mapsto> ''pid-1'', ''email'' \<mapsto> ''ghost@example.com'')"
  let ?updated = "dangling_account\<lparr> sa_access_token := Some ''at-1'',
      sa_scope := Some ''openid email profile'' \<rparr>"
  let ?accounts' = "\<lparr> ms_data = [(''test'', test_user\<lparr> u_social_accounts := [?updated] \<rparr>)],
      ms_uuids_drawn = 1 \<rparr>"
  have request: "query_params ?r ''state'' = Some ''st-1''"
    "query_params ?r ''code'' = Some ''1234567890''"
    by (simp_all add: callback_request_def get_request_def)
  have stored: "secondary_storage dangling_context (''oauth:authorization_request:'' @ ''st-1'') =
      Some (AuthorizationRequestJson stored_request)"
    "validate_authorization_request (AuthorizationRequestJson stored_request) =
      Inr stored_request"
    "\<not> ar_link stored_request"
    by (simp_all add: dangling_context_def callback_context_def test_context_def
        stored_request_def)
  have fetched: "fetch_user_info test_provider (test_world ''ghost@example.com'') ?r
      ''1234567890'' dangling_context = Inr (?info, test_token)"
    by (simp add: fetch_test_user_info)
  have info: "?info ''email'' = Some ''ghost@example.com''" "?info ''id'' = Some ''pid-1''"
    by simp_all
  have account: "find_social_account (accounts_storage dangling_context)
      (accounts dangling_context) (provider_id test_provider) ''pid-1'' = Some dangling_account"
    by (simp add: dangling_context_def callback_context_def test_context_def
        MemoryAccountsStorage_def mem_find_social_account_def all_social_accounts_def
        dangling_account_def test_provider_def)
  have updated: "update_social_account (accounts_storage dangling_context)
      (accounts dangling_context) (sa_id dangling_account)
      (Some (tr_access_token test_token)) (tr_refresh_token test_token)
      (tr_access_token_expires_at test_token) (tr_refresh_token_expires_at test_token)
      (tr_scope test_token) ?info = (Inr ?updated, ?accounts')"
    by (simp add: dangling_context_def callback_context_def test_context_def
        MemoryAccountsStorage_def mem_update_social_account_def all_social_accounts_def
        dangling_account_def test_token_def)
  have no_user: "find_user_by_id (accounts_storage dangling_context) ?accounts'
      (sa_user_id dangling_account) = None"
    by (simp add: dangling_context_def callback_context_def test_context_def
        MemoryAccountsStorage_def mem_find_user_by_id_def dangling_account_def)
  from callback_dangling_account [OF request(1) _ stored request(2) _ fetched info
      account updated no_user, of 1000 "''c1''"]
  have "callback test_provider (test_world ''ghost@example.com'') 1000 ''c1'' ?r
      dangling_context = (Inl AttributeError, dangling_context\<lparr> accounts := ?accounts' \<rparr>)"
    by simp
  with account no_user show ?thesis
    by simp
qed

section \<open>Linking: theorems\<close>

lemma validate_test:
  "validate_pkce ''n4bQgYhMfWWaL-qgxVrQFaO_TxsrC4Is0V1sFbDwCgg'' ''S256'' ''test'' = Inr True"
  by (simp add: validate_pkce_def challenge_test compare_digest_def is_ascii_def)

lemma fetch_link_user_info:
  "fetch_user_info test_provider (test_world email) link_request ''1234567890'' ctx =
     (if email = [] then Inl (OAuth2Exception ''server_error'' ''No email found in user info'')
      else Inr (Map.empty(''id'' \<mapsto> ''pid-1'', ''email'' \<mapsto> email), test_token))"
  by (simp add: fetch_user_info_def exchange_code_def build_token_exchange_params_def
      get_code_verifier_def test_world_def test_provider_def)

lemma finalize_link_rejects_other_owner:
  assumes "get_user_from_request ctx request = Some user"
    and "req_json request = Some request_data"
    and "request_data ''link_code'' = Some code" "code \<noteq> []"
    and "secondary_storage ctx (''oauth:link_request:'' @ code) = Some raw"
    and "validate_link_code raw = Inr link_data"
    and "\<not> lc_expires_at link_data < now"
    and "request_data ''code_verifier'' = Some verifier" "verifier \<noteq> []"
    and "validate_pkce (lc_code_challenge link_data) (lc_code_challenge_method link_data)
           verifier = Inr True"
    and "fetch_user_info self world request (lc_provider_code link_data) ctx =
           Inr (user_info, token_response)"
    and "user_info ''id'' = Some provider_user_id"
    and "find_social_account (accounts_storage ctx) (accounts ctx) (provider_id self)
           provider_user_id = Some social_account"
    and "sa_user_id social_account \<noteq> u_id user"
  shows "finalize_link self world now request ctx =
           (Inr (Response_error ''server_error'' (Some ''Social account already exists'') None),
            ctx)"
proof -
  from assms(5,6) have "stored_truthy raw" "lc_code_challenge_method link_data = ''S256''"
    by (cases raw; simp split: if_splits)+
  with assms show ?thesis
    by (simp add: finalize_link_def getitem_def)
qed

lemma link_request_facts:
  "req_json link_request = Some (map_of [(''link_code'', ''test''), (''code_verifier'', ''test'')])"
  "req_headers link_request ''Authorization'' = Some ''Bearer test''"
  by (simp_all add: link_request_def post_request_def)

lemma conflict_context_facts:
  "get_user_from_request conflict_context link_request = Some test_user"
  "secondary_storage conflict_context (''oauth:link_request:'' @ ''test'') =
     Some (LinkCodeJson stored_link_code)"
  "validate_link_code (LinkCodeJson stored_link_code) = Inr stored_link_code"
  "find_social_account (accounts_storage conflict_context) (accounts conflict_context)
     (provider_id test_provider) ''pid-1'' = Some (hd (u_social_accounts other_user))"
  "sa_user_id (hd (u_social_accounts other_user)) \<noteq> u_id test_user"
  by (simp_all add: conflict_context_def link_context_def test_context_def link_request_facts
      stored_link_code_def MemoryAccountsStorage_def mem_find_social_account_def
      all_social_accounts_def other_user_def test_user_def test_provider_def)

lemma stored_link_code_facts:
  "\<not> lc_expires_at stored_link_code < 1000"
  "lc_code_challenge stored_link_code = ''n4bQgYhMfWWaL-qgxVrQFaO_TxsrC4Is0V1sFbDwCgg''"
  "lc_code_challenge_method stored_link_code = ''S256''"
  "lc_provider_code stored_link_code = ''1234567890''"
  by (simp_all add: stored_link_code_def)

lemma conflict_call:
  "finalize_link test_provider (test_world ''new@example.com'') 1000 link_request
       conflict_context =
     (Inr (Response_error ''server_error'' (Some ''Social account already exists'') None),
      conflict_context)"
proof -
  have fetched: "fetch_user_info test_provider (test_world ''new@example.com'') link_request
      (lc_provider_code stored_link_code) conflict_context =
      Inr (Map.empty(''id'' \<mapsto> ''pid-1'', ''email'' \<mapsto> ''new@example.com''), test_token)"
    by (simp add: stored_link_code_facts fetch_link_user_info)
  show ?thesis
    by (rule finalize_link_rejects_other_owner
        [OF conflict_context_facts(1) link_request_facts(1) _ _ conflict_context_facts(2,3)
          stored_link_code_facts(1) _ _ _ fetched _ conflict_context_facts(4,5)])
       (simp_all add: stored_link_code_facts validate_test)+
qed

text \<open>
  C7 (as stated, refuted): the caller \<open>test\<close> redeems a link code for an upstream identity
  whose social account belongs to the user \<open>other\<close>. The error code of the answer is the
  generic \<open>server_error\<close>.
\<close>

theorem finalize_link_conflict_counterexample:
  "finalize_link test_provider (test_world ''new@example.com'') 1000 link_request
       conflict_context =
     (Inr (Response_error ''server_error'' (Some ''Social account already exists'') None),
      conflict_context)"
  by (rule conflict_call)

lemma identity_set_tokens:
  "identity_of (social_account\<lparr> sa_access_token := a, sa_refresh_token := r,
      sa_access_token_expires_at := ae, sa_refresh_token_expires_at := re, sa_scope := sc \<rparr>) =
   identity_of social_account"
  by (simp add: identity_of_def)

lemma update_first_map:
  "(\<And>x. g (f x) = g x) \<Longrightarrow> map g (update_first P f xs) = map g xs"
  by (induction xs) simp_all

lemma update_first_account_map:
  "(\<And>x. g (f x) = g x) \<Longrightarrow>
   map g (concat (map (\<lambda>(k, user). u_social_accounts user) (update_first_account P f d))) =
   map g (concat (map (\<lambda>(k, user). u_social_accounts user) d))"
  by (induction P f d rule: update_first_account.induct) (simp_all add: update_first_map)

lemma mem_update_identity:
  "mem_update_social_account st i a r ae re sc ui = (out, st') \<Longrightarrow>
   map identity_of (all_social_accounts st') = map identity_of (all_social_accounts st)"
  by (auto simp: mem_update_social_account_def all_social_accounts_def Let_def
      update_first_account_map identity_set_tokens split: option.splits)

lemma dict_set_accounts:
  "map_of d k = Some u \<Longrightarrow>
   set (concat (map (\<lambda>(k, user). u_social_accounts user)
     (dict_set k (u\<lparr> u_social_accounts := u_social_accounts u @ [sa] \<rparr>) d))) =
   insert sa (set (concat (map (\<lambda>(k, user). u_social_accounts user) d)))"
proof (induction d)
  case Nil
  then show ?case by simp
next
  case (Cons x d)
  obtain k' v' where x: "x = (k', v')" by (cases x)
  show ?case
  proof (cases "k' = k")
    case True
    with Cons.prems x have "v' = u" by simp
    with True x show ?thesis by auto
  next
    case False
    with Cons.prems x have "map_of d k = Some u" by simp
    from Cons.IH [OF this] False x show ?thesis by simp
  qed
qed

lemma mem_create_accounts:
  "mem_create_social_account u4 st uid p pid a r ae re sc ui = (Inr new, st') \<Longrightarrow>
   set (all_social_accounts st') = insert new (set (all_social_accounts st)) \<and>
   sa_user_id new = uid \<and> sa_provider new = p \<and> sa_provider_user_id new = pid"
proof -
  assume "mem_create_social_account u4 st uid p pid a r ae re sc ui = (Inr new, st')"
  then obtain user where user: "map_of (ms_data st) uid = Some user"
    and new: "sa_user_id new = uid" "sa_provider new = p" "sa_provider_user_id new = pid"
    and st': "ms_data st' =
      dict_set uid (user\<lparr> u_social_accounts := u_social_accounts user @ [new] \<rparr>) (ms_data st)"
    by (auto simp: mem_create_social_account_def Let_def split: option.splits)
  from dict_set_accounts [OF user, of new] st' new show ?thesis
    by (simp add: all_social_accounts_def)
qed

lemma mem_create_failed:
  "mem_create_social_account u4 st uid p pid a r ae re sc ui = (Inl e, st') \<Longrightarrow> st' = st"
  by (auto simp: mem_create_social_account_def Let_def split: option.splits)

lemma finalize_link_frame:
  "finalize_link self world now request ctx = (out, ctx') \<Longrightarrow>
   ctx' = ctx \<or>
   (\<exists>user sa a b c d e ui p pid.
      get_user_from_request ctx request = Some user \<and>
      find_social_account (accounts_storage ctx) (accounts ctx) p pid = Some sa \<and>
      sa_user_id sa = u_id user \<and>
      ctx' = ctx\<lparr> accounts := snd (update_social_account (accounts_storage ctx) (accounts ctx)
                (sa_id sa) a b c d e ui) \<rparr>) \<or>
   (\<exists>user a b c d e ui p pid.
      get_user_from_request ctx request = Some user \<and>
      ctx' = ctx\<lparr> accounts := snd (create_social_account (accounts_storage ctx) (accounts ctx)
                (u_id user) p pid a b c d e ui) \<rparr>)"
  unfolding finalize_link_def Let_def
  by (simp split: option.splits sum.splits if_splits prod.splits exn.splits bool.splits)
     (metis snd_conv)+

lemma finalize_link_checks:
  assumes "get_user_from_request ctx request = Some user"
    and "req_json request = Some request_data"
    and "request_data ''link_code'' = Some code" "code \<noteq> []"
    and "secondary_storage ctx (''oauth:link_request:'' @ code) = Some raw"
    and "validate_link_code raw = Inr link_data"
    and "\<not> lc_expires_at link_data < now"
    and "request_data ''code_verifier'' = Some verifier" "verifier \<noteq> []"
    and "validate_pkce (lc_code_challenge link_data) (lc_code_challenge_method link_data)
           verifier = Inr True"
    and "fetch_user_info self world request (lc_provider_code link_data) ctx =
           Inr (user_info, token_response)"
    and "user_info ''id'' = Some provider_user_id"
  shows "finalize_link self world now request ctx =
     (case find_social_account (accounts_storage ctx) (accounts ctx) (provider_id self)
             provider_user_id of
        Some social_account \<Rightarrow>
          if sa_user_id social_account \<noteq> u_id user
          then (Inr (Response_error ''server_error'' (Some ''Social account already exists'')
                  None), ctx)
          else
            (case update_social_account (accounts_storage ctx) (accounts ctx)
                    (sa_id social_account) (Some (tr_access_token token_response))
                    (tr_refresh_token token_response)
                    (tr_access_token_expires_at token_response)
                    (tr_refresh_token_expires_at token_response)
                    (tr_scope token_response) user_info of
               (Inl e, accounts') \<Rightarrow> (Inl e, ctx\<lparr> accounts := accounts' \<rparr>)
             | (Inr _, accounts') \<Rightarrow>
                 (Inr (Response_plain 200 ''{\"message\": \"Link finalized\"}''),
                  ctx\<lparr> accounts := accounts' \<rparr>))
      | None \<Rightarrow>
          (case create_social_account (accounts_storage ctx) (accounts ctx) (u_id user)
                  (provider_id self) provider_user_id
                  (Some (tr_access_token token_response))
                  (tr_refresh_token token_response)
                  (tr_access_token_expires_at token_response)
                  (tr_refresh_token_expires_at token_response)
                  (tr_scope token_response) user_info of
             (Inl e, accounts') \<Rightarrow> (Inl e, ctx\<lparr> accounts := accounts' \<rparr>)
           | (Inr _, accounts') \<Rightarrow>
               (Inr (Response_plain 200 ''{\"message\": \"Link finalized\"}''),
                ctx\<lparr> accounts := accounts' \<rparr>)))"
proof -
  from assms(5,6) have "stored_truthy raw" "lc_code_challenge_method link_data = ''S256''"
    by (cases raw; simp split: if_splits)+
  with assms show ?thesis
    by (simp add: finalize_link_def getitem_def)
qed

lemma finalize_link_success:
  assumes ok: "finalize_link self world now request ctx = (Inr (Response_plain st b), ctx')"
  obtains user request_data code raw link_data verifier user_info token_response
    provider_user_id
  where "get_user_from_request ctx request = Some user"
    and "req_json request = Some request_data"
    and "request_data ''link_code'' = Some code" "code \<noteq> []"
    and "secondary_storage ctx (''oauth:link_request:'' @ code) = Some raw"
    and "validate_link_code raw = Inr link_data"
    and "\<not> lc_expires_at link_data < now"
    and "request_data ''code_verifier'' = Some verifier" "verifier \<noteq> []"
    and "validate_pkce (lc_code_challenge link_data) (lc_code_challenge_method link_data)
           verifier = Inr True"
    and "fetch_user_info self world request (lc_provider_code link_data) ctx =
           Inr (user_info, token_response)"
    and "user_info ''id'' = Some provider_user_id"
proof -
  from ok obtain user where 1: "get_user_from_request ctx request = Some user"
    by (cases "get_user_from_request ctx request") (simp_all add: finalize_link_def)
  from ok 1 obtain request_data where 2: "req_json request = Some request_data"
    by (cases "req_json request") (simp_all add: finalize_link_def)
  from ok 1 2 obtain code where 3: "request_data ''link_code'' = Some code" "code \<noteq> []"
    by (cases "request_data ''link_code''") (auto simp: finalize_link_def split: if_splits)
  from ok 1 2 3 obtain raw where
    4: "secondary_storage ctx (''oauth:link_request:'' @ code) = Some raw" "stored_truthy raw"
    by (cases "secondary_storage ctx (''oauth:link_request:'' @ code)")
       (auto simp: finalize_link_def split: if_splits)
  from ok 1 2 3 4 obtain link_data where 5: "validate_link_code raw = Inr link_data"
    by (cases "validate_link_code raw") (simp_all add: finalize_link_def)
  from 5 have m: "lc_code_challenge_method link_data = ''S256''"
    by (cases raw) (simp_all split: if_splits)
  from ok 1 2 3 4 5 have 6: "\<not> lc_expires_at link_data < now"
    by (auto simp: finalize_link_def split: if_splits)
  from ok 1 2 3 4 5 6 m obtain verifier where
    7: "request_data ''code_verifier'' = Some verifier" "verifier \<noteq> []"
    by (cases "request_data ''code_verifier''") (auto simp: finalize_link_def split: if_splits)
  from ok 1 2 3 4 5 6 m 7 have
    8: "validate_pkce (lc_code_challenge link_data) (lc_code_challenge_method link_data)
          verifier = Inr True"
    by (cases "validate_pkce (lc_code_challenge link_data) ''S256'' verifier")
       (auto simp: finalize_link_def split: if_splits bool.splits)
  from ok 1 2 3 4 5 6 m 7 8 obtain user_info token_response where
    9: "fetch_user_info self world request (lc_provider_code link_data) ctx =
          Inr (user_info, token_response)"
    by (cases "fetch_user_info self world request (lc_provider_code link_data) ctx")
       (auto simp: finalize_link_def split: exn.splits)
  from ok 1 2 3 4 5 6 m 7 8 9 obtain provider_user_id where
    10: "user_info ''id'' = Some provider_user_id"
    by (cases "user_info ''id''") (auto simp: finalize_link_def getitem_def)
  from 1 2 3 4 5 6 7 8 9 10 that show thesis
    by blast
qed

lemma fetch_user_info_context:
  "fetch_user_info self world request code (ctx\<lparr> accounts := a \<rparr>) =
   fetch_user_info self world request code ctx"
  by (simp add: fetch_user_info_def exchange_code_def get_code_verifier_def)

lemma find_same_identity:
  "map identity_of xs = map identity_of ys \<Longrightarrow>
   find (\<lambda>x. sa_provider x = p \<and> sa_provider_user_id x = q) xs = Some a \<Longrightarrow>
   \<exists>b. find (\<lambda>x. sa_provider x = p \<and> sa_provider_user_id x = q) ys = Some b \<and>
       identity_of b = identity_of a"
proof (induction xs arbitrary: ys)
  case Nil
  then show ?case by simp
next
  case (Cons x xs)
  then obtain y ys' where ys: "ys = y # ys'" "identity_of x = identity_of y"
    "map identity_of xs = map identity_of ys'"
    by (cases ys) auto
  show ?case
  proof (cases "sa_provider x = p \<and> sa_provider_user_id x = q")
    case True
    with Cons.prems ys show ?thesis by (auto simp: identity_of_def)
  next
    case False
    with Cons.prems have "find (\<lambda>x. sa_provider x = p \<and> sa_provider_user_id x = q) xs = Some a"
      by auto
    from Cons.IH [OF ys(3) this] False ys show ?thesis
      by (auto simp: identity_of_def)
  qed
qed

lemma mem_update_succeeds:
  "social_account \<in> set (all_social_accounts st) \<Longrightarrow>
   \<exists>updated st'. mem_update_social_account st (sa_id social_account) a r ae re sc ui =
     (Inr updated, st')"
proof -
  assume "social_account \<in> set (all_social_accounts st)"
  then have "find (\<lambda>x. sa_id x = sa_id social_account) (all_social_accounts st) \<noteq> None"
    by (auto simp: find_None_iff)
  then show ?thesis
    by (auto simp: mem_update_social_account_def Let_def)
qed

lemma find_in_set: "find P xs = Some x \<Longrightarrow> x \<in> set xs \<and> P x"
  by (auto simp: find_Some_iff)

lemma mem_relink_found:
  assumes "mem_find_social_account acc' p q = Some b" "sa_user_id b = u_id user"
    and mem: "accounts_storage mctx = MemoryAccountsStorage h u4"
    and checks: "get_user_from_request mctx request = Some user"
      "req_json request = Some request_data"
      "request_data ''link_code'' = Some code" "code \<noteq> []"
      "secondary_storage mctx (''oauth:link_request:'' @ code) = Some raw"
      "validate_link_code raw = Inr link_data"
      "\<not> lc_expires_at link_data < now2"
      "request_data ''code_verifier'' = Some verifier" "verifier \<noteq> []"
      "validate_pkce (lc_code_challenge link_data) (lc_code_challenge_method link_data)
         verifier = Inr True"
      "fetch_user_info self world request (lc_provider_code link_data) mctx =
         Inr (user_info, token_response)"
      "user_info ''id'' = Some q"
    and p: "p = provider_id self"
  shows "\<exists>mctx''. finalize_link self world now2 request (mctx\<lparr> accounts := acc' \<rparr>) =
     (Inr (Response_plain 200 ''{\"message\": \"Link finalized\"}''), mctx'')"
proof -
  let ?ctx = "mctx\<lparr> accounts := acc' \<rparr>"
  from assms(1) have "b \<in> set (all_social_accounts acc')"
    by (simp add: mem_find_social_account_def find_in_set)
  from mem_update_succeeds [OF this] obtain updated acc'' where
    updated: "mem_update_social_account acc' (sa_id b) (Some (tr_access_token token_response))
      (tr_refresh_token token_response) (tr_access_token_expires_at token_response)
      (tr_refresh_token_expires_at token_response) (tr_scope token_response) user_info =
      (Inr updated, acc'')"
    by blast
  have "finalize_link self world now2 request ?ctx =
      (Inr (Response_plain 200 ''{\"message\": \"Link finalized\"}''), ?ctx\<lparr> accounts := acc'' \<rparr>)"
    using assms(1,2) mem p updated checks
    by (subst finalize_link_checks [where ctx = ?ctx and user = user
          and request_data = request_data and code = code and raw = raw
          and link_data = link_data and verifier = verifier and user_info = user_info
          and token_response = token_response and provider_user_id = q])
       (simp_all add: fetch_user_info_context MemoryAccountsStorage_def)
  then show ?thesis by blast
qed

lemma finalize_link_storage:
  "finalize_link self world now request ctx = (out, ctx') \<Longrightarrow>
   secondary_storage ctx' = secondary_storage ctx"
  using finalize_link_frame [of self world now request ctx out ctx'] by auto

lemma mem_replay:
  assumes mem: "accounts_storage mctx = MemoryAccountsStorage h u4"
    and first: "finalize_link self world now request mctx = (Inr (Response_plain st b), mctx')"
    and body: "req_json request = Some request_data" "request_data ''link_code'' = Some code"
    and stored: "secondary_storage mctx (''oauth:link_request:'' @ code) =
      Some (LinkCodeJson link_data)"
    and alive: "\<not> lc_expires_at link_data < now2"
  shows "\<exists>mctx''. finalize_link self world now2 request mctx' =
     (Inr (Response_plain 200 ''{\"message\": \"Link finalized\"}''), mctx'')"
proof -
  from first obtain user rd c raw ld verifier user_info token_response q
    where facts: "get_user_from_request mctx request = Some user"
      "req_json request = Some rd"
      "rd ''link_code'' = Some c" "c \<noteq> []"
      "secondary_storage mctx (''oauth:link_request:'' @ c) = Some raw"
      "validate_link_code raw = Inr ld"
      "\<not> lc_expires_at ld < now"
      "rd ''code_verifier'' = Some verifier" "verifier \<noteq> []"
      "validate_pkce (lc_code_challenge ld) (lc_code_challenge_method ld) verifier = Inr True"
      "fetch_user_info self world request (lc_provider_code ld) mctx =
         Inr (user_info, token_response)"
      "user_info ''id'' = Some q"
    by (rule finalize_link_success)
  from facts(2,3,5,6) body stored have same: "rd = request_data" "c = code"
    "raw = LinkCodeJson link_data" "ld = link_data"
    by (auto split: if_splits)
  note checks = facts(1-6) alive [folded same(4)] facts(8-12)
  let ?P = "\<lambda>x. sa_provider x = provider_id self \<and> sa_provider_user_id x = q"
  note fl = finalize_link_checks [OF facts]
  from mem have ops: "find_social_account (accounts_storage mctx) = mem_find_social_account"
    "create_social_account (accounts_storage mctx) = mem_create_social_account u4"
    "update_social_account (accounts_storage mctx) = mem_update_social_account"
    by (simp_all add: MemoryAccountsStorage_def)
  show ?thesis
  proof (cases "mem_find_social_account (accounts mctx) (provider_id self) q")
    case None
    with fl first ops obtain new acc' where created:
      "mem_create_social_account u4 (accounts mctx) (u_id user) (provider_id self) q
         (Some (tr_access_token token_response)) (tr_refresh_token token_response)
         (tr_access_token_expires_at token_response)
         (tr_refresh_token_expires_at token_response) (tr_scope token_response) user_info =
       (Inr new, acc')" and ctx': "mctx' = mctx\<lparr> accounts := acc' \<rparr>"
      by (auto split: prod.splits sum.splits)
    from mem_create_accounts [OF created]
    have new: "set (all_social_accounts acc') = insert new (set (all_social_accounts (accounts mctx)))"
      "sa_user_id new = u_id user" "?P new"
      by simp_all
    from None have none: "\<forall>x\<in>set (all_social_accounts (accounts mctx)). \<not> ?P x"
      by (simp add: mem_find_social_account_def find_None_iff)
    from new have "find ?P (all_social_accounts acc') \<noteq> None"
      by (auto simp: find_None_iff)
    then obtain x where found: "mem_find_social_account acc' (provider_id self) q = Some x"
      by (auto simp: mem_find_social_account_def)
    then have "find ?P (all_social_accounts acc') = Some x"
      by (simp add: mem_find_social_account_def)
    from find_in_set [OF this] have "x \<in> set (all_social_accounts acc')" "?P x"
      by simp_all
    with new none have "x = new" by auto
    with new have "sa_user_id x = u_id user" by simp
    from mem_relink_found [OF found this mem checks refl] ctx' show ?thesis
      by simp
  next
    case (Some social_account)
    with fl first ops obtain updated acc' where owner: "sa_user_id social_account = u_id user"
      and updated: "mem_update_social_account (accounts mctx) (sa_id social_account)
         (Some (tr_access_token token_response)) (tr_refresh_token token_response)
         (tr_access_token_expires_at token_response)
         (tr_refresh_token_expires_at token_response) (tr_scope token_response) user_info =
       (Inr updated, acc')" and ctx': "mctx' = mctx\<lparr> accounts := acc' \<rparr>"
      by (auto split: prod.splits sum.splits if_splits)
    from mem_update_identity [OF updated]
    have "map identity_of (all_social_accounts (accounts mctx)) =
        map identity_of (all_social_accounts acc')"
      by simp
    from find_same_identity [OF this, of "provider_id self" q social_account] Some
    obtain x where found: "mem_find_social_account acc' (provider_id self) q = Some x"
      and "identity_of x = identity_of social_account"
      by (auto simp: mem_find_social_account_def)
    with owner have "sa_user_id x = u_id user"
      by (simp add: identity_of_def)
    from mem_relink_found [OF found this mem checks refl] ctx' show ?thesis
      by simp
  qed
qed

lemma mem_finalize_link_identities:
  assumes mem: "accounts_storage mctx = MemoryAccountsStorage h u4"
    and call: "finalize_link self world now request mctx = (out, mctx')"
  shows "set (map identity_of (all_social_accounts (accounts mctx))) \<subseteq>
         set (map identity_of (all_social_accounts (accounts mctx')))"
proof -
  from mem have ops:
    "create_social_account (accounts_storage mctx) = mem_create_social_account u4"
    "update_social_account (accounts_storage mctx) = mem_update_social_account"
    by (simp_all add: MemoryAccountsStorage_def)
  from finalize_link_frame [OF call] consider
      (same) "mctx' = mctx"
    | (updated) i a b c d e ui where
        "mctx' = mctx\<lparr> accounts :=
           snd (mem_update_social_account (accounts mctx) i a b c d e ui) \<rparr>"
    | (created) uid p pid a b c d e ui where
        "mctx' = mctx\<lparr> accounts :=
           snd (mem_create_social_account u4 (accounts mctx) uid p pid a b c d e ui) \<rparr>"
    unfolding ops by blast
  then show ?thesis
  proof cases
    case same
    then show ?thesis by simp
  next
    case updated
    let ?r = "mem_update_social_account (accounts mctx) i a b c d e ui"
    have "?r = (fst ?r, snd ?r)" by simp
    from mem_update_identity [OF this] updated show ?thesis by simp
  next
    case created
    let ?r = "mem_create_social_account u4 (accounts mctx) uid p pid a b c d e ui"
    show ?thesis
    proof (cases "fst ?r")
      case (Inl err)
      then have "?r = (Inl err, snd ?r)" by (metis prod.collapse)
      from mem_create_failed [OF this] created show ?thesis by simp
    next
      case (Inr new)
      then have "?r = (Inr new, snd ?r)" by (metis prod.collapse)
      from mem_create_accounts [OF this] created show ?thesis by auto
    qed
  qed
qed

lemma link_context_facts:
  "accounts_storage link_context = MemoryAccountsStorage (\<lambda>pw. CHR ''#'' # pw) test_uuid4"
  "get_user_from_request link_context link_request = Some test_user"
  "secondary_storage link_context (''oauth:link_request:'' @ ''test'') =
     Some (LinkCodeJson stored_link_code)"
  "find_social_account (accounts_storage link_context) (accounts link_context)
     (provider_id test_provider) ''pid-1'' = None"
  "create_social_account (accounts_storage link_context) (accounts link_context)
     (u_id test_user) (provider_id test_provider) ''pid-1''
     (Some (tr_access_token test_token)) (tr_refresh_token test_token)
     (tr_access_token_expires_at test_token) (tr_refresh_token_expires_at test_token)
     (tr_scope test_token) ui =
   (Inr (hd (u_social_accounts (snd (hd (ms_data linked_accounts))))), linked_accounts)"
  by (simp_all add: link_context_def test_context_def link_request_facts
      MemoryAccountsStorage_def mem_find_social_account_def mem_create_social_account_def
      all_social_accounts_def test_accounts_def test_user_def test_provider_def
      test_token_def test_uuid4_def linked_accounts_def Let_def)

lemma first_link:
  "finalize_link test_provider (test_world ''new@example.com'') 1000 link_request link_context =
     (Inr (Response_plain 200 ''{\"message\": \"Link finalized\"}''),
      link_context\<lparr> accounts := linked_accounts \<rparr>)"
proof -
  let ?info = "Map.empty(''id'' \<mapsto> ''pid-1'', ''email'' \<mapsto> ''new@example.com'')"
  have fetched: "fetch_user_info test_provider (test_world ''new@example.com'') link_request
      (lc_provider_code stored_link_code) link_context = Inr (?info, test_token)"
    by (simp add: stored_link_code_facts fetch_link_user_info)
  have "finalize_link test_provider (test_world ''new@example.com'') 1000 link_request
      link_context =
      (case find_social_account (accounts_storage link_context) (accounts link_context)
             (provider_id test_provider) ''pid-1'' of
         Some social_account \<Rightarrow>
           if sa_user_id social_account \<noteq> u_id test_user
           then (Inr (Response_error ''server_error'' (Some ''Social account already exists'')
                   None), link_context)
           else
             (case update_social_account (accounts_storage link_context)
                     (accounts link_context) (sa_id social_account)
                     (Some (tr_access_token test_token)) (tr_refresh_token test_token)
                     (tr_access_token_expires_at test_token)
                     (tr_refresh_token_expires_at test_token) (tr_scope test_token) ?info of
                (Inl e, accounts') \<Rightarrow> (Inl e, link_context\<lparr> accounts := accounts' \<rparr>)
              | (Inr _, accounts') \<Rightarrow>
                  (Inr (Response_plain 200 ''{\"message\": \"Link finalized\"}''),
                   link_context\<lparr> accounts := accounts' \<rparr>))
       | None \<Rightarrow>
           (case create_social_account (accounts_storage link_context) (accounts link_context)
                   (u_id test_user) (provider_id test_provider) ''pid-1''
                   (Some (tr_access_token test_token)) (tr_refresh_token test_token)
                   (tr_access_token_expires_at test_token)
                   (tr_refresh_token_expires_at test_token) (tr_scope test_token) ?info of
              (Inl e, accounts') \<Rightarrow> (Inl e, link_context\<lparr> accounts := accounts' \<rparr>)
            | (Inr _, accounts') \<Rightarrow>
                (Inr (Response_plain 200 ''{\"message\": \"Link finalized\"}''),
                 link_context\<lparr> accounts := accounts' \<rparr>)))"
    by (rule finalize_link_checks
        [OF link_context_facts(2) link_request_facts(1) _ _ link_context_facts(3)
          conflict_context_facts(3) stored_link_code_facts(1) _ _ _ fetched])
       (simp_all add: stored_link_code_facts validate_test)+
  with link_context_facts(4) link_context_facts(5) [of ?info] show ?thesis
    by simp
qed

lemma linked_context_facts:
  "accounts_storage (link_context\<lparr> accounts := linked_accounts \<rparr>) =
     MemoryAccountsStorage (\<lambda>pw. CHR ''#'' # pw) test_uuid4"
  "get_user_from_request (link_context\<lparr> accounts := linked_accounts \<rparr>) link_request =
     Some test_user"
  "secondary_storage (link_context\<lparr> accounts := linked_accounts \<rparr>)
     (''oauth:link_request:'' @ ''test'') = Some (LinkCodeJson stored_link_code)"
  "find_social_account (accounts_storage (link_context\<lparr> accounts := linked_accounts \<rparr>))
     (accounts (link_context\<lparr> accounts := linked_accounts \<rparr>))
     (provider_id test_provider) ''pid-1'' =
   Some (hd (u_social_accounts (snd (hd (ms_data linked_accounts)))))"
  "sa_user_id (hd (u_social_accounts (snd (hd (ms_data linked_accounts))))) = u_id test_user"
  "update_social_account (accounts_storage (link_context\<lparr> accounts := linked_accounts \<rparr>))
     (accounts (link_context\<lparr> accounts := linked_accounts \<rparr>))
     (sa_id (hd (u_social_accounts (snd (hd (ms_data linked_accounts))))))
     (Some (tr_access_token test_token)) (tr_refresh_token test_token)
     (tr_access_token_expires_at test_token) (tr_refresh_token_expires_at test_token)
     (tr_scope test_token) ui =
   (Inr (hd (u_social_accounts (snd (hd (ms_data linked_accounts))))), linked_accounts)"
  by (simp_all add: link_context_def test_context_def link_request_facts
      MemoryAccountsStorage_def mem_find_social_account_def mem_update_social_account_def
      all_social_accounts_def test_user_def test_provider_def
      test_token_def linked_accounts_def Let_def)

lemma second_link:
  "finalize_link test_provider (test_world ''new@example.com'') 1000 link_request
       (link_context\<lparr> accounts := linked_accounts \<rparr>) =
     (Inr (Response_plain 200 ''{\"message\": \"Link finalized\"}''),
      link_context\<lparr> accounts := linked_accounts \<rparr>)"
proof -
  let ?ctx = "link_context\<lparr> accounts := linked_accounts \<rparr>"
  let ?sa = "hd (u_social_accounts (snd (hd (ms_data linked_accounts))))"
  let ?info = "Map.empty(''id'' \<mapsto> ''pid-1'', ''email'' \<mapsto> ''new@example.com'')"
  have fetched: "fetch_user_info test_provider (test_world ''new@example.com'') link_request
      (lc_provider_code stored_link_code) ?ctx = Inr (?info, test_token)"
    by (simp add: stored_link_code_facts fetch_link_user_info)
  have "finalize_link test_provider (test_world ''new@example.com'') 1000 link_request ?ctx =
      (case find_social_account (accounts_storage ?ctx) (accounts ?ctx)
             (provider_id test_provider) ''pid-1'' of
         Some social_account \<Rightarrow>
           if sa_user_id social_account \<noteq> u_id test_user
           then (Inr (Response_error ''server_error'' (Some ''Social account already exists'')
                   None), ?ctx)
           else
             (case update_social_account (accounts_storage ?ctx) (accounts ?ctx)
                     (sa_id social_account) (Some (tr_access_token test_token))
                     (tr_refresh_token test_token) (tr_access_token_expires_at test_token)
                     (tr_refresh_token_expires_at test_token) (tr_scope test_token) ?info of
                (Inl e, accounts') \<Rightarrow> (Inl e, ?ctx\<lparr> accounts := accounts' \<rparr>)
              | (Inr _, accounts') \<Rightarrow>
                  (Inr (Response_plain 200 ''{\"message\": \"Link finalized\"}''),
                   ?ctx\<lparr> accounts := accounts' \<rparr>))
       | None \<Rightarrow>
           (case create_social_account (accounts_storage ?ctx) (accounts ?ctx)
                   (u_id test_user) (provider_id test_provider) ''pid-1''
                   (Some (tr_access_token test_token)) (tr_refresh_token test_token)
                   (tr_access_token_expires_at test_token)
                   (tr_refresh_token_expires_at test_token) (tr_scope test_token) ?info of
              (Inl e, accounts') \<Rightarrow> (Inl e, ?ctx\<lparr> accounts := accounts' \<rparr>)
            | (Inr _, accounts') \<Rightarrow>
                (Inr (Response_plain 200 ''{\"message\": \"Link finalized\"}''),
                 ?ctx\<lparr> accounts := accounts' \<rparr>)))"
    by (rule finalize_link_checks
        [OF linked_context_facts(2) link_request_facts(1) _ _ linked_context_facts(3)
          conflict_context_facts(3) stored_link_code_facts(1) _ _ _ fetched])
       (simp_all add: stored_link_code_facts validate_test)+
  with linked_context_facts(4,5) linked_context_facts(6) [of ?info] show ?thesis
    by simp
qed

text \<open>
  C4 (as stated, refuted): the user \<open>test\<close> redeems the link code \<open>test\<close>; the call
  succeeds and links the upstream identity. The same request is then presented again, and
  it succeeds a second time.
\<close>

theorem finalize_link_twice_counterexample:
  "finalize_link test_provider (test_world ''new@example.com'') 1000 link_request link_context =
     (Inr (Response_plain 200 ''{\"message\": \"Link finalized\"}''),
      link_context\<lparr> accounts := linked_accounts \<rparr>) \<and>
   finalize_link test_provider (test_world ''new@example.com'') 1000 link_request
       (link_context\<lparr> accounts := linked_accounts \<rparr>) =
     (Inr (Response_plain 200 ''{\"message\": \"Link finalized\"}''),
      link_context\<lparr> accounts := linked_accounts \<rparr>)"
  by (rule conjI [OF first_link second_link])

text \<open>
  C4 (amended): \<open>finalize_link\<close> only reads the secondary storage: after every call the
  storage is what it was before, so a redeemed link code stays stored. With the in-memory
  accounts storage, after a call that succeeded, the same request presented again at any
  time at which the stored link code has not expired succeeds again (the upstream
  provider answering as before).
\<close>

theorem finalize_link_replay:
  "(finalize_link self world now request ctx = (out, ctx') \<longrightarrow>
      secondary_storage ctx' = secondary_storage ctx) \<and>
   (accounts_storage mctx = MemoryAccountsStorage hash uuid \<and>
    finalize_link self world now request mctx = (Inr (Response_plain st b), mctx') \<and>
    req_json request = Some request_data \<and> request_data ''link_code'' = Some code \<and>
    secondary_storage mctx (''oauth:link_request:'' @ code) = Some (LinkCodeJson link_data) \<and>
    \<not> lc_expires_at link_data < later \<longrightarrow>
      (\<exists>mctx''. finalize_link self world later request mctx' =
         (Inr (Response_plain 200 ''{\"message\": \"Link finalized\"}''), mctx'')))"
  using finalize_link_storage [of self world now request ctx out ctx']
    mem_replay [of mctx hash uuid self world now request st b mctx' request_data code link_data later]
  by blast

theorem finalize_link_replay_witness:
  "finalize_link test_provider (test_world ''new@example.com'') 1000 link_request link_context =
     (Inr (Response_plain 200 ''{\"message\": \"Link finalized\"}''),
      link_context\<lparr> accounts := linked_accounts \<rparr>) \<and>
   secondary_storage (link_context\<lparr> accounts := linked_accounts \<rparr>) =
     secondary_storage link_context \<and>
   accounts_storage link_context = MemoryAccountsStorage (\<lambda>pw. CHR ''#'' # pw) test_uuid4 \<and>
   req_json link_request =
     Some (map_of [(''link_code'', ''test''), (''code_verifier'', ''test'')]) \<and>
   map_of [(''link_code'', ''test''), (''code_verifier'', ''test'')] ''link_code'' =
     Some ''test'' \<and>
   secondary_storage link_context (''oauth:link_request:'' @ ''test'') =
     Some (LinkCodeJson stored_link_code) \<and>
   \<not> lc_expires_at stored_link_code < 1005 \<and>
   (\<exists>mctx''. finalize_link test_provider (test_world ''new@example.com'') 1005 link_request
        (link_context\<lparr> accounts := linked_accounts \<rparr>) =
      (Inr (Response_plain 200 ''{\"message\": \"Link finalized\"}''), mctx''))"
proof -
  have alive: "\<not> lc_expires_at stored_link_code < 1005"
    by (simp add: stored_link_code_def)
  have code: "map_of [(''link_code'', ''test''), (''code_verifier'', ''test'')] ''link_code'' =
      Some ''test''"
    by simp
  from finalize_link_replay [where self = test_provider
      and world = "test_world ''new@example.com''" and now = 1000 and request = link_request
      and ctx = link_context and out = "Inr (Response_plain 200 ''{\"message\": \"Link finalized\"}'')"
      and ctx' = "link_context\<lparr> accounts := linked_accounts \<rparr>"
      and mctx = link_context and hash = "\<lambda>pw. CHR ''#'' # pw" and uuid = test_uuid4
      and st = 200 and b = "''{\"message\": \"Link finalized\"}''"
      and mctx' = "link_context\<lparr> accounts := linked_accounts \<rparr>"
      and request_data = "map_of [(''link_code'', ''test''), (''code_verifier'', ''test'')]"
      and code = "''test''" and link_data = stored_link_code and later = 1005]
    first_link link_context_facts(1,3) link_request_facts(1) code alive
  have "secondary_storage (link_context\<lparr> accounts := linked_accounts \<rparr>) =
      secondary_storage link_context \<and>
    (\<exists>mctx''. finalize_link test_provider (test_world ''new@example.com'') 1005 link_request
        (link_context\<lparr> accounts := linked_accounts \<rparr>) =
      (Inr (Response_plain 200 ''{\"message\": \"Link finalized\"}''), mctx''))"
    by blast
  with first_link link_context_facts(1,3) link_request_facts(1) code alive show ?thesis
    by blast
qed

text \<open>
  C7 (amended): when the upstream identity of a redeemed link code has a social account
  whose owner is not the caller, \<open>finalize_link\<close> answers with a bare error, the code
  \<open>server_error\<close> and the description \<open>Social account already exists\<close>, and the context
  after the call is the context before it. With the in-memory accounts storage, every
  social account that exists before a call of \<open>finalize_link\<close> exists after it with the
  same id, owner, provider and upstream identity.
\<close>

theorem finalize_link_other_owner:
  "(get_user_from_request ctx request = Some user \<and>
    req_json request = Some request_data \<and>
    request_data ''link_code'' = Some code \<and> code \<noteq> [] \<and>
    secondary_storage ctx (''oauth:link_request:'' @ code) = Some raw \<and>
    validate_link_code raw = Inr link_data \<and>
    \<not> lc_expires_at link_data < now \<and>
    request_data ''code_verifier'' = Some verifier \<and> verifier \<noteq> [] \<and>
    validate_pkce (lc_code_challenge link_data) (lc_code_challenge_method link_data)
      verifier = Inr True \<and>
    fetch_user_info self world request (lc_provider_code link_data) ctx =
      Inr (user_info, token_response) \<and>
    user_info ''id'' = Some provider_user_id \<and>
    find_social_account (accounts_storage ctx) (accounts ctx) (provider_id self)
      provider_user_id = Some social_account \<and>
    sa_user_id social_account \<noteq> u_id user \<longrightarrow>
      finalize_link self world now request ctx =
        (Inr (Response_error ''server_error'' (Some ''Social account already exists'') None),
         ctx)) \<and>
   (accounts_storage mctx = MemoryAccountsStorage hash uuid \<and>
    finalize_link prov wld tm req mctx = (out, mctx') \<longrightarrow>
      set (map identity_of (all_social_accounts (accounts mctx))) \<subseteq>
      set (map identity_of (all_social_accounts (accounts mctx'))))"
  using finalize_link_rejects_other_owner [of ctx request user request_data code raw link_data
      now verifier self world user_info token_response provider_user_id social_account]
    mem_finalize_link_identities [of mctx hash uuid prov wld tm req out mctx']
  by blast

theorem finalize_link_other_owner_witness:
  "get_user_from_request conflict_context link_request = Some test_user \<and>
   find_social_account (accounts_storage conflict_context) (accounts conflict_context)
     (provider_id test_provider) ''pid-1'' = Some (hd (u_social_accounts other_user)) \<and>
   sa_user_id (hd (u_social_accounts other_user)) \<noteq> u_id test_user \<and>
   finalize_link test_provider (test_world ''new@example.com'') 1000 link_request
       conflict_context =
     (Inr (Response_error ''server_error'' (Some ''Social account already exists'') None),
      conflict_context) \<and>
   accounts_storage (link_context\<lparr> accounts := linked_accounts \<rparr>) =
     MemoryAccountsStorage (\<lambda>pw. CHR ''#'' # pw) test_uuid4 \<and>
   finalize_link test_provider (test_world ''new@example.com'') 1000 link_request
       (link_context\<lparr> accounts := linked_accounts \<rparr>) =
     (Inr (Response_plain 200 ''{\"message\": \"Link finalized\"}''),
      link_context\<lparr> accounts := linked_accounts \<rparr>) \<and>
   set (map identity_of
          (all_social_accounts (accounts (link_context\<lparr> accounts := linked_accounts \<rparr>)))) =
     {(''uuid-'', ''test'', ''test'', ''pid-1'')} \<and>
   set (map identity_of
          (all_social_accounts (accounts (link_context\<lparr> accounts := linked_accounts \<rparr>)))) \<subseteq>
   set (map identity_of
          (all_social_accounts (accounts (link_context\<lparr> accounts := linked_accounts \<rparr>))))"
proof -
  let ?info = "Map.empty(''id'' \<mapsto> ''pid-1'', ''email'' \<mapsto> ''new@example.com'')"
  let ?body = "map_of [(''link_code'', ''test''), (''code_verifier'', ''test'')]"
  let ?linked = "link_context\<lparr> accounts := linked_accounts \<rparr>"
  have fetched: "fetch_user_info test_provider (test_world ''new@example.com'') link_request
      (lc_provider_code stored_link_code) conflict_context = Inr (?info, test_token)"
    by (simp add: stored_link_code_facts fetch_link_user_info)
  have small: "?body ''link_code'' = Some ''test''" "?body ''code_verifier'' = Some ''test''"
    "''test'' \<noteq> []" "?info ''id'' = Some ''pid-1''"
    "validate_pkce (lc_code_challenge stored_link_code)
       (lc_code_challenge_method stored_link_code) ''test'' = Inr True"
    by (simp_all add: stored_link_code_facts validate_test)
  have ids: "set (map identity_of (all_social_accounts (accounts ?linked))) =
      {(''uuid-'', ''test'', ''test'', ''pid-1'')}"
    by (simp add: all_social_accounts_def linked_accounts_def identity_of_def)
  from finalize_link_other_owner [where ctx = conflict_context and request = link_request
      and user = test_user and request_data = ?body and code = "''test''"
      and raw = "LinkCodeJson stored_link_code" and link_data = stored_link_code
      and now = 1000 and verifier = "''test''" and self = test_provider
      and world = "test_world ''new@example.com''" and user_info = ?info
      and token_response = test_token and provider_user_id = "''pid-1''"
      and social_account = "hd (u_social_accounts other_user)"
      and mctx = ?linked and hash = "\<lambda>pw. CHR ''#'' # pw" and uuid = test_uuid4
      and prov = test_provider and wld = "test_world ''new@example.com''" and tm = 1000
      and req = link_request
      and out = "Inr (Response_plain 200 ''{\"message\": \"Link finalized\"}'')"
      and mctx' = ?linked]
    conflict_context_facts link_request_facts(1) stored_link_code_facts(1) fetched small
    linked_context_facts(1) second_link
  have "finalize_link test_provider (test_world ''new@example.com'') 1000 link_request
       conflict_context =
     (Inr (Response_error ''server_error'' (Some ''Social account already exists'') None),
      conflict_context) \<and>
    set (map identity_of (all_social_accounts (accounts ?linked))) \<subseteq>
    set (map identity_of (all_social_accounts (accounts ?linked)))"
    by blast
  with conflict_context_facts(1,4,5) linked_context_facts(1) second_link ids show ?thesis
    by blast
qed

end
